theory Spec2Isabelle
  imports Complex_Main "HOL-Library.Multiset" "HOL-Library.Char_ord"
    "HOL-Library.List_Lexorder"
begin

section \<open>Space Habitat Builder: connection validator and habitat model\<close>

text \<open>
  A shallow embedding of \<^verbatim>\<open>src/utils/connectionValidator.js\<close>,
  \<^verbatim>\<open>src/data/connectionTypes.js\<close>, \<^verbatim>\<open>src/data/moduleDefinitions.js\<close> and the
  reducer of \<^verbatim>\<open>src/contexts/HabitatContext.js\<close>.

  A JavaScript array of three numbers is a triple. Object identifiers and type tags are
  strings.
\<close>

subsection \<open>Numbers\<close>

text \<open>
  JavaScript numbers are IEEE 754 binary64 values. A finite number is modelled by the
  real number it denotes; the infinities and NaN, and computations that overflow, are
  outside the model. The arithmetic of the geometric functions is a parameter: a record
  of the rounded operations. What is proved for every such record holds for whatever
  the operations return on finite numbers. Comparison, negation and \<^verbatim>\<open>Math.abs\<close> are
  exact.
\<close>

record arith =
  fadd :: "real \<Rightarrow> real \<Rightarrow> real"
  fsub :: "real \<Rightarrow> real \<Rightarrow> real"
  fmul :: "real \<Rightarrow> real \<Rightarrow> real"
  fdiv :: "real \<Rightarrow> real \<Rightarrow> real"
  fsqrt :: "real \<Rightarrow> real"
  fcos :: "real \<Rightarrow> real"
  fsin :: "real \<Rightarrow> real"

text \<open>
  Rounding to the nearest double, ties to even: \<open>binade x\<close> is the exponent of \<open>x\<close>
  (not below that of the smallest normal number, which gives the subnormal numbers
  their spacing), \<open>ulp\<close> the spacing of the doubles with that exponent, and \<open>rne\<close>
  rounds to the nearest integer, a tie to the even one.
\<close>

definition rne :: "real \<Rightarrow> int" where
  "rne y =
     (let f = \<lfloor>y\<rfloor>; r = y - of_int f
      in if r < 1 / 2 then f
         else if 1 / 2 < r then f + 1
         else if even f then f else f + 1)"

definition binade :: "real \<Rightarrow> int" where
  "binade x = max \<lfloor>log 2 \<bar>x\<bar>\<rfloor> (- 1022)"

definition ulp :: "int \<Rightarrow> real" where
  "ulp e = 2 powr of_int (e - 52)"

definition dbl :: "real \<Rightarrow> real" where
  "dbl x =
     (if x = 0 then 0
      else let u = ulp (binade x) in sgn x * of_int (rne (\<bar>x\<bar> / u)) * u)"

text \<open>
  The arithmetic of the program: each operation returns the double nearest to the exact
  result. \<^verbatim>\<open>Math.cos\<close> and \<^verbatim>\<open>Math.sin\<close> are approximated by the implementation; the
  record takes the rounded exact values, which are the ones the language prescribes at
  0. A decimal literal of the source denotes \<open>dbl\<close> of its value.
\<close>

definition binary64 :: arith where
  "binary64 =
     \<lparr>fadd = (\<lambda>x y. dbl (x + y)), fsub = (\<lambda>x y. dbl (x - y)),
      fmul = (\<lambda>x y. dbl (x * y)), fdiv = (\<lambda>x y. dbl (x / y)),
      fsqrt = (\<lambda>x. dbl (sqrt x)), fcos = (\<lambda>x. dbl (cos x)),
      fsin = (\<lambda>x. dbl (sin x))\<rparr>"

subsection \<open>Data model\<close>

type_synonym vec3 = "real \<times> real \<times> real"

record connectionPointDef =
  cp_id :: string
  cp_position :: vec3
  cp_normal :: vec3
  cp_type :: string

text \<open>A world-space point is the definition's point (the spread \<^verbatim>\<open>...point\<close>) with
  three more fields.\<close>

record worldPoint = connectionPointDef +
  worldPosition :: vec3
  worldNormal :: vec3
  moduleId :: string

record dimensions =
  width :: real
  height :: real
  depth :: real

record moduleDefinition =
  def_id :: string
  def_name :: string
  def_type :: string
  def_dimensions :: dimensions
  mass :: real
  crewCapacity :: real
  powerConsumption :: real
  powerGeneration :: real
  connectionPoints :: "connectionPointDef list"
  cost :: real

record moduleInstance =
  mod_id :: string
  definitionId :: string
  mod_position :: vec3
  mod_rotation :: vec3
  mod_timestamp :: "nat option"

record connection =
  conn_id :: string
  moduleId1 :: string
  pointId1 :: string
  moduleId2 :: string
  pointId2 :: string
  conn_timestamp :: "nat option"

subsection \<open>Connection types and constraints (connectionTypes.js)\<close>

definition STRUCTURAL :: string where "STRUCTURAL = ''structural''"
definition UTILITY :: string where "UTILITY = ''utility''"
definition EXTERNAL :: string where "EXTERNAL = ''external''"

definition connectionRules :: "(string \<times> string list) list" where
  "connectionRules =
     [(STRUCTURAL, [STRUCTURAL]),
      (UTILITY, [STRUCTURAL, UTILITY]),
      (EXTERNAL, [])]"

definition MAX_CONNECTION_DISTANCE :: real where "MAX_CONNECTION_DISTANCE = dbl 0.5"

text \<open>Declared in the constraints table and read by no function of the repository: the
  angle of 144 degrees, \<open>0.8 \<pi>\<close>.\<close>

definition MIN_ALIGNMENT_ANGLE :: real where "MIN_ALIGNMENT_ANGLE = pi * 0.8"

definition GRID_SNAP :: real where "GRID_SNAP = dbl 0.1"

definition COLLISION_BUFFER :: real where "COLLISION_BUFFER = dbl 0.2"

subsection \<open>Module catalog (moduleDefinitions.js)\<close>

text \<open>The decimal literals of the catalog are the doubles nearest to them; its integers
  are themselves.\<close>

definition mkPoint :: "string \<Rightarrow> vec3 \<Rightarrow> vec3 \<Rightarrow> string \<Rightarrow> connectionPointDef" where
  "mkPoint i p n t = \<lparr>cp_id = i, cp_position = p, cp_normal = n, cp_type = t\<rparr>"

definition central_hub :: moduleDefinition where
  "central_hub =
     \<lparr>def_id = ''central-hub'', def_name = ''Central Hub'', def_type = ''Central Hub'',
      def_dimensions = \<lparr>width = dbl 4.2, height = dbl 4.2, depth = dbl 4.2\<rparr>,
      mass = 15000, crewCapacity = 0, powerConsumption = 500, powerGeneration = 0,
      connectionPoints =
        [mkPoint ''north'' (0, 0, dbl 2.1) (0, 0, 1) ''structural'',
         mkPoint ''south'' (0, 0, - dbl 2.1) (0, 0, - 1) ''structural'',
         mkPoint ''east'' (dbl 2.1, 0, 0) (1, 0, 0) ''structural'',
         mkPoint ''west'' (- dbl 2.1, 0, 0) (- 1, 0, 0) ''structural'',
         mkPoint ''up'' (0, dbl 2.1, 0) (0, 1, 0) ''structural'',
         mkPoint ''down'' (0, - dbl 2.1, 0) (0, - 1, 0) ''structural''],
      cost = 25000000\<rparr>"

definition living_quarters :: moduleDefinition where
  "living_quarters =
     \<lparr>def_id = ''living-quarters'', def_name = ''Living Quarters'',
      def_type = ''Living Quarters'',
      def_dimensions = \<lparr>width = dbl 4.2, height = dbl 4.2, depth = dbl 8.5\<rparr>,
      mass = 12000, crewCapacity = 4, powerConsumption = 800, powerGeneration = 0,
      connectionPoints =
        [mkPoint ''front'' (0, 0, dbl 4.25) (0, 0, 1) ''structural'',
         mkPoint ''back'' (0, 0, - dbl 4.25) (0, 0, - 1) ''structural''],
      cost = 18000000\<rparr>"

definition laboratory :: moduleDefinition where
  "laboratory =
     \<lparr>def_id = ''laboratory'', def_name = ''Research Laboratory'',
      def_type = ''Research Lab'',
      def_dimensions = \<lparr>width = dbl 4.2, height = dbl 4.2, depth = dbl 10.7\<rparr>,
      mass = 14000, crewCapacity = 2, powerConsumption = 1500, powerGeneration = 0,
      connectionPoints =
        [mkPoint ''front'' (0, 0, dbl 5.35) (0, 0, 1) ''structural'',
         mkPoint ''back'' (0, 0, - dbl 5.35) (0, 0, - 1) ''structural'',
         mkPoint ''utility'' (dbl 2.1, 0, 0) (1, 0, 0) ''utility''],
      cost = 35000000\<rparr>"

definition airlock :: moduleDefinition where
  "airlock =
     \<lparr>def_id = ''airlock'', def_name = ''EVA Airlock'', def_type = ''EVA Airlock'',
      def_dimensions = \<lparr>width = dbl 4.2, height = dbl 4.2, depth = dbl 3.0\<rparr>,
      mass = 8000, crewCapacity = 2, powerConsumption = 300, powerGeneration = 0,
      connectionPoints =
        [mkPoint ''inner'' (0, 0, - dbl 1.5) (0, 0, - 1) ''structural'',
         mkPoint ''outer'' (0, 0, dbl 1.5) (0, 0, 1) ''external''],
      cost = 12000000\<rparr>"

definition storage :: moduleDefinition where
  "storage =
     \<lparr>def_id = ''storage'', def_name = ''Storage Module'', def_type = ''Storage'',
      def_dimensions = \<lparr>width = dbl 4.2, height = dbl 4.2, depth = dbl 6.0\<rparr>,
      mass = 5000, crewCapacity = 0, powerConsumption = 100, powerGeneration = 0,
      connectionPoints =
        [mkPoint ''front'' (0, 0, dbl 3.0) (0, 0, 1) ''structural'',
         mkPoint ''back'' (0, 0, - dbl 3.0) (0, 0, - 1) ''structural''],
      cost = 8000000\<rparr>"

definition recreation :: moduleDefinition where
  "recreation =
     \<lparr>def_id = ''recreation'', def_name = ''Recreation Module'', def_type = ''Recreation'',
      def_dimensions = \<lparr>width = dbl 6.0, height = dbl 6.0, depth = dbl 8.0\<rparr>,
      mass = 10000, crewCapacity = 8, powerConsumption = 600, powerGeneration = 0,
      connectionPoints =
        [mkPoint ''front'' (0, 0, dbl 4.0) (0, 0, 1) ''structural'',
         mkPoint ''back'' (0, 0, - dbl 4.0) (0, 0, - 1) ''structural''],
      cost = 15000000\<rparr>"

definition moduleDefinitions :: "moduleDefinition list" where
  "moduleDefinitions =
     [central_hub, living_quarters, laboratory, airlock, storage, recreation]"

text \<open>\<^verbatim>\<open>moduleDefinitions.find(def => def.id === id)\<close>: the first match, or nothing.\<close>

definition findDefinition :: "string \<Rightarrow> moduleDefinition option" where
  "findDefinition i = find (\<lambda>d. def_id d = i) moduleDefinitions"

subsection \<open>Geometry\<close>

fun distance3D :: "arith \<Rightarrow> vec3 \<Rightarrow> vec3 \<Rightarrow> real" where
  "distance3D ar (x1, y1, z1) (x2, y2, z2) =
     (let dx = fsub ar x1 x2; dy = fsub ar y1 y2; dz = fsub ar z1 z2
      in fsqrt ar (fadd ar (fadd ar (fmul ar dx dx) (fmul ar dy dy)) (fmul ar dz dz)))"

fun dotProduct :: "arith \<Rightarrow> vec3 \<Rightarrow> vec3 \<Rightarrow> real" where
  "dotProduct ar (x1, y1, z1) (x2, y2, z2) =
     fadd ar (fadd ar (fmul ar x1 x2) (fmul ar y1 y2)) (fmul ar z1 z2)"

fun normalize :: "arith \<Rightarrow> vec3 \<Rightarrow> vec3" where
  "normalize ar (x, y, z) =
     (let len = fsqrt ar (fadd ar (fadd ar (fmul ar x x) (fmul ar y y)) (fmul ar z z))
      in if len = 0 then (0, 0, 0) else (fdiv ar x len, fdiv ar y len, fdiv ar z len))"

text \<open>Only the second component of the rotation is used.\<close>

fun transformPoint :: "arith \<Rightarrow> vec3 \<Rightarrow> vec3 \<Rightarrow> vec3 \<Rightarrow> vec3" where
  "transformPoint ar (lx, ly, lz) (px, py, pz) (rx, ry, rz) =
     (let c = fcos ar ry; s = fsin ar ry;
          rotatedX = fsub ar (fmul ar lx c) (fmul ar lz s);
          rotatedY = ly;
          rotatedZ = fadd ar (fmul ar lx s) (fmul ar lz c)
      in (fadd ar rotatedX px, fadd ar rotatedY py, fadd ar rotatedZ pz))"

fun transformNormal :: "arith \<Rightarrow> vec3 \<Rightarrow> vec3 \<Rightarrow> vec3" where
  "transformNormal ar (nx, ny, nz) (rx, ry, rz) =
     (let c = fcos ar ry; s = fsin ar ry
      in normalize ar
           (fsub ar (fmul ar nx c) (fmul ar nz s), ny, fadd ar (fmul ar nx s) (fmul ar nz c)))"

definition toWorld :: "arith \<Rightarrow> moduleInstance \<Rightarrow> connectionPointDef \<Rightarrow> worldPoint" where
  "toWorld ar m p =
     \<lparr>cp_id = cp_id p, cp_position = cp_position p, cp_normal = cp_normal p,
      cp_type = cp_type p,
      worldPosition = transformPoint ar (cp_position p) (mod_position m) (mod_rotation m),
      worldNormal = transformNormal ar (cp_normal p) (mod_rotation m),
      moduleId = mod_id m\<rparr>"

definition getWorldConnectionPoints :: "arith \<Rightarrow> moduleInstance \<Rightarrow> worldPoint list" where
  "getWorldConnectionPoints ar m =
     (case findDefinition (definitionId m) of
        None \<Rightarrow> []
      | Some d \<Rightarrow> map (toWorld ar m) (connectionPoints d))"

subsection \<open>The compatibility rule\<close>

text \<open>
  The reason texts are template strings; each is modelled by a constructor that carries
  the values the template embeds: the two type tags, the measured distance, the dot
  product of the normals (from which the source prints an angle).
\<close>

datatype reason =
    Incompatible string string
  | TooFar real
  | Misaligned real
  | Valid

record decision =
  ok :: bool
  reason :: reason

text \<open>\<^verbatim>\<open>connectionRules[point1.type] || []\<close>, for the type tags that are not names of
  inherited properties of the table object (for one that is, such as \<^verbatim>\<open>toString\<close>, the
  source throws; the catalog has no such tag).\<close>

definition rulesFor :: "string \<Rightarrow> string list" where
  "rulesFor t = (case map_of connectionRules t of None \<Rightarrow> [] | Some ts \<Rightarrow> ts)"

definition canConnect :: "arith \<Rightarrow> worldPoint \<Rightarrow> worldPoint \<Rightarrow> decision" where
  "canConnect ar point1 point2 =
     (let type1Rules = rulesFor (cp_type point1) in
      if \<not> List.member type1Rules (cp_type point2) then
        \<lparr>ok = False, reason = Incompatible (cp_type point1) (cp_type point2)\<rparr>
      else
        let dist = distance3D ar (worldPosition point1) (worldPosition point2) in
        if dist > MAX_CONNECTION_DISTANCE then
          \<lparr>ok = False, reason = TooFar dist\<rparr>
        else
          let alignment = dotProduct ar (worldNormal point1) (worldNormal point2) in
          if alignment > - dbl 0.7 then
            \<lparr>ok = False, reason = Misaligned alignment\<rparr>
          else
            \<lparr>ok = True, reason = Valid\<rparr>)"

subsection \<open>Collision detection\<close>

definition checkModuleCollision :: "arith \<Rightarrow> moduleInstance \<Rightarrow> moduleInstance \<Rightarrow> bool" where
  "checkModuleCollision ar module1 module2 =
     (case (findDefinition (definitionId module1), findDefinition (definitionId module2)) of
        (Some def1, Some def2) \<Rightarrow>
          (case (mod_position module1, mod_position module2) of
             ((x1, y1, z1), (x2, y2, z2)) \<Rightarrow>
               let dim1 = def_dimensions def1; dim2 = def_dimensions def2;
                   buffer = COLLISION_BUFFER;
                   overlapX = \<bar>fsub ar x1 x2\<bar> <
                     fadd ar (fdiv ar (fadd ar (width dim1) (width dim2)) 2) buffer;
                   overlapY = \<bar>fsub ar y1 y2\<bar> <
                     fadd ar (fdiv ar (fadd ar (height dim1) (height dim2)) 2) buffer;
                   overlapZ = \<bar>fsub ar z1 z2\<bar> <
                     fadd ar (fdiv ar (fadd ar (depth dim1) (depth dim2)) 2) buffer
               in overlapX \<and> overlapY \<and> overlapZ)
      | _ \<Rightarrow> False)"

subsection \<open>Potential-connection search\<close>

record potentialConnection =
  targetPoint :: worldPoint
  existingPoint :: worldPoint
  existingModule :: moduleInstance
  distance :: real

text \<open>The innermost loop body: the pair is tested and, when accepted, pushed onto the
  array of candidates.\<close>

definition pushCandidate ::
  "arith \<Rightarrow> moduleInstance \<Rightarrow> worldPoint \<Rightarrow> worldPoint \<Rightarrow>
     potentialConnection list \<Rightarrow> potentialConnection list" where
  "pushCandidate ar em tp ep acc =
     (let connection = canConnect ar tp ep
      in if ok connection
         then acc @ [\<lparr>targetPoint = tp, existingPoint = ep, existingModule = em,
                      distance = distance3D ar (worldPosition tp) (worldPosition ep)\<rparr>]
         else acc)"

text \<open>
  The three nested \<^verbatim>\<open>forEach\<close> loops, threading the array: existing modules
  outermost (one whose id is the target's is skipped), then the target's points, then
  the existing module's points. The array is then sorted with the comparator
  \<^verbatim>\<open>a.distance - b.distance\<close>. The distances of candidates are finite and at most the
  maximum connection distance, so the difference is negative, zero or positive as the
  first distance is less than, equal to or greater than the second; the sort is stable,
  as is \<^const>\<open>sort_key\<close> (insertion sort).
\<close>

definition findPotentialConnections ::
  "arith \<Rightarrow> moduleInstance \<Rightarrow> vec3 \<Rightarrow> moduleInstance list \<Rightarrow> potentialConnection list" where
  "findPotentialConnections ar targetModule targetPosition existingModules =
     (let tempModule = targetModule\<lparr>mod_position := targetPosition\<rparr>;
          targetPoints = getWorldConnectionPoints ar tempModule;
          potentialConnections =
            fold (\<lambda>em acc.
                if mod_id em = mod_id targetModule then acc
                else
                  let existingPoints = getWorldConnectionPoints ar em
                  in fold (\<lambda>tp acc. fold (pushCandidate ar em tp) existingPoints acc)
                       targetPoints acc)
              existingModules []
      in sort_key distance potentialConnections)"

subsection \<open>Habitat validation\<close>

text \<open>Messages are template strings; a constructor stands for each template and carries
  what the template embeds.\<close>

datatype message =
    Colliding string string
  | NonExistentModule
  | InvalidPoint
  | Reason reason
  | NotConnected int

record validationError =
  err_type :: string
  err_message :: message
  err_moduleIds :: "string list option"
  err_connectionId :: "string option"

record validationWarning =
  warn_type :: string
  warn_message :: message
  warn_severity :: string

record report =
  errors :: "validationError list"
  warnings :: "validationWarning list"
  isValid :: bool

definition collisionError :: "moduleInstance \<Rightarrow> moduleInstance \<Rightarrow> validationError" where
  "collisionError mi mj =
     \<lparr>err_type = ''collision'', err_message = Colliding (mod_id mi) (mod_id mj),
      err_moduleIds = Some [mod_id mi, mod_id mj], err_connectionId = None\<rparr>"

text \<open>The inner loop over \<^verbatim>\<open>j > i\<close> and the outer loop over \<^verbatim>\<open>i\<close>, threading the
  \<^verbatim>\<open>errors\<close> array.\<close>

fun collisionsWith ::
  "arith \<Rightarrow> moduleInstance \<Rightarrow> moduleInstance list \<Rightarrow> validationError list \<Rightarrow>
     validationError list" where
  "collisionsWith ar mi [] errs = errs"
| "collisionsWith ar mi (mj # rest) errs =
     collisionsWith ar mi rest
       (if checkModuleCollision ar mi mj then errs @ [collisionError mi mj] else errs)"

fun collisionLoop ::
  "arith \<Rightarrow> moduleInstance list \<Rightarrow> validationError list \<Rightarrow> validationError list" where
  "collisionLoop ar [] errs = errs"
| "collisionLoop ar (mi # rest) errs =
     collisionLoop ar rest (collisionsWith ar mi rest errs)"

definition findModule :: "moduleInstance list \<Rightarrow> string \<Rightarrow> moduleInstance option" where
  "findModule modules i = find (\<lambda>m. mod_id m = i) modules"

definition referenceError :: "connection \<Rightarrow> validationError" where
  "referenceError c =
     \<lparr>err_type = ''invalid_connection'', err_message = NonExistentModule,
      err_moduleIds = None, err_connectionId = Some (conn_id c)\<rparr>"

definition pointError :: "connection \<Rightarrow> validationError" where
  "pointError c =
     \<lparr>err_type = ''invalid_connection_point'', err_message = InvalidPoint,
      err_moduleIds = None, err_connectionId = Some (conn_id c)\<rparr>"

definition ruleError :: "connection \<Rightarrow> reason \<Rightarrow> validationError" where
  "ruleError c r =
     \<lparr>err_type = ''invalid_connection'', err_message = Reason r,
      err_moduleIds = None, err_connectionId = Some (conn_id c)\<rparr>"

text \<open>The body of \<^verbatim>\<open>connections.forEach\<close>, with its two early returns.\<close>

definition checkConnection ::
  "arith \<Rightarrow> moduleInstance list \<Rightarrow> connection \<Rightarrow> validationError list \<Rightarrow>
     validationError list" where
  "checkConnection ar modules c errs =
     (case (findModule modules (moduleId1 c), findModule modules (moduleId2 c)) of
        (Some module1, Some module2) \<Rightarrow>
          (let points1 = getWorldConnectionPoints ar module1;
               points2 = getWorldConnectionPoints ar module2
           in case (find (\<lambda>p. cp_id p = pointId1 c) points1,
                    find (\<lambda>p. cp_id p = pointId2 c) points2) of
                (Some point1, Some point2) \<Rightarrow>
                  (let validation = canConnect ar point1 point2
                   in if \<not> ok validation
                      then errs @ [ruleError c (reason validation)]
                      else errs)
              | _ \<Rightarrow> errs @ [pointError c])
      | _ \<Rightarrow> errs @ [referenceError c])"

text \<open>
  The reachability walk. \<^verbatim>\<open>toVisit\<close> is a stack: it is kept here with its top (the
  array's last element) first. \<^verbatim>\<open>connected\<close> is a \<^verbatim>\<open>Set\<close>, kept as the list of its
  elements in insertion order; an element is added only when absent.
\<close>

fun visitConnections ::
  "connection list \<Rightarrow> string \<Rightarrow> string list \<Rightarrow> string list \<Rightarrow> string list" where
  "visitConnections [] currentId connectedIds toVisit = toVisit"
| "visitConnections (c # cs) currentId connectedIds toVisit =
     visitConnections cs currentId connectedIds
       (if moduleId1 c = currentId \<and> moduleId2 c \<notin> set connectedIds
          then moduleId2 c # toVisit
        else if moduleId2 c = currentId \<and> moduleId1 c \<notin> set connectedIds
          then moduleId1 c # toVisit
        else toVisit)"

definition endpoints :: "connection list \<Rightarrow> string set" where
  "endpoints cs = moduleId1 ` set cs \<union> moduleId2 ` set cs"

function walk :: "connection list \<Rightarrow> string list \<Rightarrow> string list \<Rightarrow> string list" where
  "walk connections [] connectedIds = connectedIds"
| "walk connections (currentId # toVisit) connectedIds =
     (if currentId \<in> set connectedIds then walk connections toVisit connectedIds
      else
        let connectedIds' = connectedIds @ [currentId]
        in walk connections
             (visitConnections connections currentId connectedIds' toVisit) connectedIds')"
  by pat_completeness auto

text \<open>Each round either shrinks the stack or marks an identifier that was not marked before,
  and only identifiers of the stack or of the connections are ever marked.\<close>

termination
proof (relation "measures [\<lambda>(cs, toVisit, con). card ((endpoints cs \<union> set toVisit) - set con),
                           \<lambda>(cs, toVisit, con). length toVisit]")
  show "wf (measures [\<lambda>(cs, toVisit, con). card ((endpoints cs \<union> set toVisit) - set con),
                           \<lambda>(cs, toVisit, con). length toVisit])"
    by simp
next
  fix connections :: "connection list" and currentId :: string
    and toVisit connectedIds :: "string list"
  assume "currentId \<in> set connectedIds"
  then have "(endpoints connections \<union> set (currentId # toVisit)) - set connectedIds
           = (endpoints connections \<union> set toVisit) - set connectedIds"
    by auto
  then show "((connections, toVisit, connectedIds), connections, currentId # toVisit, connectedIds)
    \<in> measures [\<lambda>(cs, toVisit, con). card ((endpoints cs \<union> set toVisit) - set con),
                           \<lambda>(cs, toVisit, con). length toVisit]"
    by simp
next
  fix connections :: "connection list" and currentId :: string
    and toVisit connectedIds x :: "string list"
  assume fresh: "currentId \<notin> set connectedIds" and x: "x = connectedIds @ [currentId]"
  have sub: "set (visitConnections cs cur con tv) \<subseteq> set tv \<union> endpoints cs" for cs cur con tv
    by (induction cs cur con tv rule: visitConnections.induct) (auto simp: endpoints_def)
  let ?old = "(endpoints connections \<union> set (currentId # toVisit)) - set connectedIds"
  let ?new = "(endpoints connections \<union> set (visitConnections connections currentId x toVisit)) - set x"
  have "finite ?old"
    by (simp add: endpoints_def)
  moreover have "?new \<subseteq> ?old - {currentId}"
    using sub [of connections currentId x toVisit] x by auto
  moreover have "currentId \<in> ?old"
    using fresh by simp
  ultimately have "finite ?old" and "?new \<subset> ?old"
    by blast+
  then have "card ?new < card ?old"
    by (rule psubset_card_mono)
  then show "((connections, visitConnections connections currentId x toVisit, x),
        connections, currentId # toVisit, connectedIds)
    \<in> measures [\<lambda>(cs, toVisit, con). card ((endpoints cs \<union> set toVisit) - set con),
                           \<lambda>(cs, toVisit, con). length toVisit]"
    by simp
qed

definition disconnectedWarning :: "int \<Rightarrow> validationWarning" where
  "disconnectedWarning n =
     \<lparr>warn_type = ''disconnected_modules'', warn_message = NotConnected n,
      warn_severity = ''warning''\<rparr>"

definition connectivityWarnings ::
  "moduleInstance list \<Rightarrow> connection list \<Rightarrow> validationWarning list" where
  "connectivityWarnings modules connections =
     (if length modules > 1 then
        let connectedIds = walk connections [mod_id (modules ! 0)] []
        in if length connectedIds < length modules
           then [disconnectedWarning (int (length modules) - int (length connectedIds))]
           else []
      else [])"

definition validateHabitat ::
  "arith \<Rightarrow> moduleInstance list \<Rightarrow> connection list \<Rightarrow> report" where
  "validateHabitat ar modules connections =
     (let errs = collisionLoop ar modules [];
          errs = fold (checkConnection ar modules) connections errs;
          warns = connectivityWarnings modules connections
      in \<lparr>errors = errs, warnings = warns, isValid = (length errs = 0)\<rparr>)"

subsection \<open>Habitat state and reducer (HabitatContext.js)\<close>

record totals =
  totalMass :: real
  totalCrewCapacity :: real
  totalPowerConsumption :: real
  totalPowerGeneration :: real
  totalCost :: real

text \<open>The statistics are the reduced totals (the spread \<^verbatim>\<open>...stats\<close>) with two more
  fields. The catalog values that are summed are integers, and sums of integers are
  exact in binary64 as long as they stay below 2 to the power 53; the totals are added as
  real numbers.\<close>

record statistics = totals +
  totalModules :: nat
  powerBalance :: real

definition accumulate :: "totals \<Rightarrow> moduleInstance \<Rightarrow> totals" where
  "accumulate acc m =
     (case findDefinition (definitionId m) of
        Some d \<Rightarrow>
          \<lparr>totalMass = totalMass acc + mass d,
           totalCrewCapacity = totalCrewCapacity acc + crewCapacity d,
           totalPowerConsumption = totalPowerConsumption acc + powerConsumption d,
           totalPowerGeneration = totalPowerGeneration acc + powerGeneration d,
           totalCost = totalCost acc + cost d\<rparr>
      | None \<Rightarrow> acc)"

definition zeroTotals :: totals where
  "zeroTotals =
     \<lparr>totalMass = 0, totalCrewCapacity = 0, totalPowerConsumption = 0,
      totalPowerGeneration = 0, totalCost = 0\<rparr>"

definition calculateStatistics :: "moduleInstance list \<Rightarrow> statistics" where
  "calculateStatistics modules =
     (let stats = foldl accumulate zeroTotals modules
      in \<lparr>totalMass = totalMass stats,
          totalCrewCapacity = totalCrewCapacity stats,
          totalPowerConsumption = totalPowerConsumption stats,
          totalPowerGeneration = totalPowerGeneration stats,
          totalCost = totalCost stats,
          totalModules = length modules,
          powerBalance = totalPowerGeneration stats - totalPowerConsumption stats\<rparr>)"

datatype issue = ErrorIssue validationError | WarningIssue validationWarning

record habitatState =
  modules :: "moduleInstance list"
  selectedModuleId :: "string option"
  connections :: "connection list"
  validationErrors :: "issue list"
  statistics :: statistics

definition initialState :: habitatState where
  "initialState =
     \<lparr>modules = [], selectedModuleId = None, connections = [], validationErrors = [],
      statistics =
        \<lparr>totalMass = 0, totalCrewCapacity = 0, totalPowerConsumption = 0,
         totalPowerGeneration = 0, totalCost = 0, totalModules = 0, powerBalance = 0\<rparr>\<rparr>"

text \<open>The \<^verbatim>\<open>updates\<close> object of \<^verbatim>\<open>UPDATE_MODULE\<close>: each field of a module may be
  present or absent.\<close>

record moduleUpdates =
  upd_id :: "string option"
  upd_definitionId :: "string option"
  upd_position :: "vec3 option"
  upd_rotation :: "vec3 option"
  upd_timestamp :: "nat option option"

definition orElse :: "'a option \<Rightarrow> 'a \<Rightarrow> 'a" where
  "orElse v d = (case v of Some x \<Rightarrow> x | None \<Rightarrow> d)"

definition applyUpdates :: "moduleInstance \<Rightarrow> moduleUpdates \<Rightarrow> moduleInstance" where
  "applyUpdates m u =
     \<lparr>mod_id = orElse (upd_id u) (mod_id m),
      definitionId = orElse (upd_definitionId u) (definitionId m),
      mod_position = orElse (upd_position u) (mod_position m),
      mod_rotation = orElse (upd_rotation u) (mod_rotation m),
      mod_timestamp = orElse (upd_timestamp u) (mod_timestamp m)\<rparr>"

datatype action =
    ADD_MODULE moduleInstance
  | REMOVE_MODULE string
  | UPDATE_MODULE string moduleUpdates
  | SELECT_MODULE "string option"
  | DESELECT_MODULE
  | SET_MODULES "moduleInstance list"
  | ADD_CONNECTION connection
  | REMOVE_CONNECTION string
  | SET_VALIDATION_ERRORS "issue list"
  | CLEAR_VALIDATION_ERRORS
  | LOAD_CONFIGURATION "moduleInstance list option" "connection list option"
  | RESET_HABITAT
  | OTHER_ACTION

fun habitatReducer :: "habitatState \<Rightarrow> action \<Rightarrow> habitatState" where
  "habitatReducer state (ADD_MODULE payload) =
     (let newModules = modules state @ [payload]
      in state\<lparr>modules := newModules, statistics := calculateStatistics newModules\<rparr>)"
| "habitatReducer state (REMOVE_MODULE payload) =
     (let filteredModules = filter (\<lambda>m. mod_id m \<noteq> payload) (modules state)
      in state\<lparr>modules := filteredModules,
               selectedModuleId :=
                 (if selectedModuleId state = Some payload then None
                  else selectedModuleId state),
               statistics := calculateStatistics filteredModules\<rparr>)"
| "habitatReducer state (UPDATE_MODULE i updates) =
     (let updatedModules =
            map (\<lambda>m. if mod_id m = i then applyUpdates m updates else m) (modules state)
      in state\<lparr>modules := updatedModules,
               statistics := calculateStatistics updatedModules\<rparr>)"
| "habitatReducer state (SELECT_MODULE payload) = state\<lparr>selectedModuleId := payload\<rparr>"
| "habitatReducer state DESELECT_MODULE = state\<lparr>selectedModuleId := None\<rparr>"
| "habitatReducer state (SET_MODULES payload) =
     state\<lparr>modules := payload, statistics := calculateStatistics payload\<rparr>"
| "habitatReducer state (ADD_CONNECTION payload) =
     state\<lparr>connections := connections state @ [payload]\<rparr>"
| "habitatReducer state (REMOVE_CONNECTION payload) =
     state\<lparr>connections := filter (\<lambda>c. conn_id c \<noteq> payload) (connections state)\<rparr>"
| "habitatReducer state (SET_VALIDATION_ERRORS payload) =
     state\<lparr>validationErrors := payload\<rparr>"
| "habitatReducer state CLEAR_VALIDATION_ERRORS = state\<lparr>validationErrors := []\<rparr>"
| "habitatReducer state (LOAD_CONFIGURATION ms cs) =
     (let configModules = orElse ms []
      in state\<lparr>modules := configModules, selectedModuleId := None,
               connections := orElse cs [], validationErrors := [],
               statistics := calculateStatistics configModules\<rparr>)"
| "habitatReducer state RESET_HABITAT =
     initialState\<lparr>statistics := calculateStatistics []\<rparr>"
| "habitatReducer state OTHER_ACTION = state"

text \<open>
  The action creators. \<^verbatim>\<open>addModule\<close> draws a fresh identifier (\<^verbatim>\<open>uuidv4()\<close>) and the
  time (\<^verbatim>\<open>Date.now()\<close>); both are parameters here. It returns the new module's id, or
  nothing (\<^verbatim>\<open>undefined\<close>) after logging when the definition is not in the catalog;
  the second component is the state after the dispatch, if any.
\<close>

definition addModule ::
  "string \<Rightarrow> nat \<Rightarrow> string \<Rightarrow> vec3 \<Rightarrow> vec3 \<Rightarrow> habitatState \<Rightarrow> string option \<times> habitatState" where
  "addModule uuid now defId position rotation state =
     (case findDefinition defId of
        None \<Rightarrow> (None, state)
      | Some def \<Rightarrow>
          let newModule =
                \<lparr>mod_id = uuid, definitionId = defId, mod_position = position,
                 mod_rotation = rotation, mod_timestamp = Some now\<rparr>
          in (Some (mod_id newModule), habitatReducer state (ADD_MODULE newModule)))"

definition removeModule :: "string \<Rightarrow> habitatState \<Rightarrow> habitatState" where
  "removeModule i state = habitatReducer state (REMOVE_MODULE i)"

text \<open>The states the provider can be in: the initial state and whatever the reducer
  makes of it.\<close>

inductive reachable :: "habitatState \<Rightarrow> bool" where
  init: "reachable initialState"
| step: "reachable s \<Longrightarrow> reachable (habitatReducer s a)"

subsection \<open>Predicates and sample data used by the properties\<close>

text \<open>The Euclidean distance of two positions, in exact real arithmetic.\<close>

fun euclidean :: "vec3 \<Rightarrow> vec3 \<Rightarrow> real" where
  "euclidean (x1, y1, z1) (x2, y2, z2) =
     sqrt ((x1 - x2)\<^sup>2 + (y1 - y2)\<^sup>2 + (z1 - z2)\<^sup>2)"

definition isTooFar :: "reason \<Rightarrow> bool" where
  "isTooFar r = (case r of TooFar _ \<Rightarrow> True | _ \<Rightarrow> False)"

definition labAtOrigin :: moduleInstance where
  "labAtOrigin =
     \<lparr>mod_id = ''lab-1'', definitionId = ''laboratory'', mod_position = (0, 0, 0),
      mod_rotation = (0, 0, 0), mod_timestamp = None\<rparr>"

definition hubEast :: moduleInstance where
  "hubEast =
     \<lparr>mod_id = ''hub-1'', definitionId = ''central-hub'', mod_position = (dbl 4.2, 0, 0),
      mod_rotation = (0, 0, 0), mod_timestamp = None\<rparr>"

definition structuralAt :: "vec3 \<Rightarrow> vec3 \<Rightarrow> worldPoint" where
  "structuralAt p n =
     \<lparr>cp_id = ''front'', cp_position = p, cp_normal = n, cp_type = ''structural'',
      worldPosition = p, worldNormal = n, moduleId = ''m''\<rparr>"

definition hubM :: moduleInstance where
  "hubM = \<lparr>mod_id = ''hub-1'', definitionId = ''central-hub'', mod_position = (0, 0, 0),
      mod_rotation = (0, 0, 0), mod_timestamp = None\<rparr>"

definition labNorth :: moduleInstance where
  "labNorth = \<lparr>mod_id = ''lab-1'', definitionId = ''laboratory'', mod_position = (0, 0, dbl 7.45),
      mod_rotation = (0, 0, 0), mod_timestamp = None\<rparr>"

definition hubLabLink :: connection where
  "hubLabLink = \<lparr>conn_id = ''link-1'', moduleId1 = ''hub-1'', pointId1 = ''north'',
      moduleId2 = ''lab-1'', pointId2 = ''back'', conn_timestamp = None\<rparr>"

definition linkedState :: habitatState where
  "linkedState =
     habitatReducer
       (habitatReducer (habitatReducer initialState (ADD_MODULE hubM)) (ADD_MODULE labNorth))
       (ADD_CONNECTION hubLabLink)"

definition ghostM :: moduleInstance where
  "ghostM = \<lparr>mod_id = ''ghost-1'', definitionId = ''greenhouse'', mod_position = (0, 0, 0),
      mod_rotation = (0, 0, 0), mod_timestamp = None\<rparr>"

definition hubTwin :: moduleInstance where
  "hubTwin = \<lparr>mod_id = ''hub-2'', definitionId = ''central-hub'', mod_position = (1, 0, 0),
      mod_rotation = (0, 0, 0), mod_timestamp = None\<rparr>"

definition labOnly :: habitatState where
  "labOnly = habitatReducer initialState (ADD_MODULE labNorth)"

definition quartersM :: moduleInstance where
  "quartersM = \<lparr>mod_id = ''quarters-1'', definitionId = ''living-quarters'',
      mod_position = (12, 0, 0), mod_rotation = (0, 0, 0), mod_timestamp = None\<rparr>"

definition airlockNorth :: moduleInstance where
  "airlockNorth = \<lparr>mod_id = ''airlock-n'', definitionId = ''airlock'',
      mod_position = (0, 0, dbl 5.75), mod_rotation = (0, 0, 0), mod_timestamp = None\<rparr>"

definition storageSouth :: moduleInstance where
  "storageSouth = \<lparr>mod_id = ''storage-s'', definitionId = ''storage'',
      mod_position = (0, 0, - dbl 7.25), mod_rotation = (0, 0, 0), mod_timestamp = None\<rparr>"

definition summary :: "potentialConnection \<Rightarrow> string \<times> string \<times> string \<times> real" where
  "summary c =
     (cp_id (targetPoint c), cp_id (existingPoint c), mod_id (existingModule c), distance c)"

text \<open>The order the claim describes: ascending distance, ties by the point ids.\<close>

definition byDistanceThenPointIds :: "potentialConnection \<Rightarrow> potentialConnection \<Rightarrow> bool" where
  "byDistanceThenPointIds a b =
     (distance a < distance b \<or>
      (distance a = distance b \<and>
        (cp_id (targetPoint a) < cp_id (targetPoint b) \<or>
         (cp_id (targetPoint a) = cp_id (targetPoint b) \<and>
          cp_id (existingPoint a) \<le> cp_id (existingPoint b)))))"

text \<open>The undirected connection relation on module ids, and reachability through it.\<close>

definition links :: "connection list \<Rightarrow> (string \<times> string) set" where
  "links cs =
     {(moduleId1 c, moduleId2 c) | c. c \<in> set cs} \<union> {(moduleId2 c, moduleId1 c) | c. c \<in> set cs}"

definition reaches :: "connection list \<Rightarrow> string \<Rightarrow> string \<Rightarrow> bool" where
  "reaches cs a b \<longleftrightarrow> (a, b) \<in> (links cs)\<^sup>*"

definition storageFar :: moduleInstance where
  "storageFar =
     \<lparr>mod_id = ''storage-1'', definitionId = ''storage'', mod_position = (30, 0, 0),
      mod_rotation = (0, 0, 0), mod_timestamp = None\<rparr>"

definition recreationFar :: moduleInstance where
  "recreationFar =
     \<lparr>mod_id = ''recreation-1'', definitionId = ''recreation'', mod_position = (30, 0, 0),
      mod_rotation = (0, 0, 0), mod_timestamp = None\<rparr>"

definition isMisaligned :: "reason \<Rightarrow> bool" where
  "isMisaligned r = (case r of Misaligned _ \<Rightarrow> True | _ \<Rightarrow> False)"

section \<open>Properties\<close>

lemmas catalog_defs = moduleDefinitions_def central_hub_def living_quarters_def
  laboratory_def airlock_def storage_def recreation_def mkPoint_def

lemma rulesFor_table:
  "rulesFor STRUCTURAL = [STRUCTURAL]"
  "rulesFor UTILITY = [STRUCTURAL, UTILITY]"
  "rulesFor EXTERNAL = []"
  by (simp_all add: rulesFor_def connectionRules_def UTILITY_def STRUCTURAL_def EXTERNAL_def)

subsection \<open>Evaluating the rounding\<close>

text \<open>A number between a power of two and the next has that power's exponent.\<close>

lemma binade_between:
  fixes e :: int
  assumes "lo = 2 powr of_int e" and "- 1022 \<le> e"
    and "lo \<le> \<bar>x\<bar>" and "\<bar>x\<bar> < 2 * lo"
  shows "binade x = e"
proof -
  have "0 < lo"
    by (simp add: assms(1))
  with assms(3) have pos: "0 < \<bar>x\<bar>"
    by linarith
  have "2 powr of_int (e + 1) = 2 * lo"
    by (simp add: assms(1) powr_add)
  with assms(4) have up: "\<bar>x\<bar> < 2 powr (of_int e + 1)"
    by simp
  from assms(3) have low: "2 powr of_int e \<le> \<bar>x\<bar>"
    by (simp add: assms(1))
  have "\<lfloor>log 2 \<bar>x\<bar>\<rfloor> = e"
    using pos low up by (subst floor_log_eq_powr_iff) simp_all
  with assms(2) show ?thesis
    by (simp add: binade_def)
qed

lemma binade_at:
  "1 / 2 ^ 30 \<le> \<bar>x\<bar> \<Longrightarrow> \<bar>x\<bar> < 2 / 2 ^ 30 \<Longrightarrow> binade x = - 30"
  "1 / 2 ^ 60 \<le> \<bar>x\<bar> \<Longrightarrow> \<bar>x\<bar> < 2 / 2 ^ 60 \<Longrightarrow> binade x = - 60"
  "1 / 8 \<le> \<bar>x\<bar> \<Longrightarrow> \<bar>x\<bar> < 1 / 4 \<Longrightarrow> binade x = - 3"
  "1 / 4 \<le> \<bar>x\<bar> \<Longrightarrow> \<bar>x\<bar> < 1 / 2 \<Longrightarrow> binade x = - 2"
  "1 / 2 \<le> \<bar>x\<bar> \<Longrightarrow> \<bar>x\<bar> < 1 \<Longrightarrow> binade x = - 1"
  "1 \<le> \<bar>x\<bar> \<Longrightarrow> \<bar>x\<bar> < 2 \<Longrightarrow> binade x = 0"
  "2 \<le> \<bar>x\<bar> \<Longrightarrow> \<bar>x\<bar> < 4 \<Longrightarrow> binade x = 1"
  "4 \<le> \<bar>x\<bar> \<Longrightarrow> \<bar>x\<bar> < 8 \<Longrightarrow> binade x = 2"
  "8 \<le> \<bar>x\<bar> \<Longrightarrow> \<bar>x\<bar> < 16 \<Longrightarrow> binade x = 3"
  "16 \<le> \<bar>x\<bar> \<Longrightarrow> \<bar>x\<bar> < 32 \<Longrightarrow> binade x = 4"
  "32 \<le> \<bar>x\<bar> \<Longrightarrow> \<bar>x\<bar> < 64 \<Longrightarrow> binade x = 5"
  "64 \<le> \<bar>x\<bar> \<Longrightarrow> \<bar>x\<bar> < 128 \<Longrightarrow> binade x = 6"
  "128 \<le> \<bar>x\<bar> \<Longrightarrow> \<bar>x\<bar> < 256 \<Longrightarrow> binade x = 7"
  by (rule binade_between [where lo = "1 / 2 ^ 30"], simp_all add: powr_neg_numeral)
     (rule binade_between [where lo = "1 / 2 ^ 60"], simp_all add: powr_neg_numeral,
      rule binade_between [where lo = "1 / 8"], simp_all add: powr_neg_numeral,
      rule binade_between [where lo = "1 / 4"], simp_all add: powr_neg_numeral,
      rule binade_between [where lo = "1 / 2"], simp_all add: powr_neg_numeral,
      rule binade_between [where lo = 1], simp_all,
      rule binade_between [where lo = 2], simp_all,
      rule binade_between [where lo = 4], simp_all,
      rule binade_between [where lo = 8], simp_all,
      rule binade_between [where lo = 16], simp_all,
      rule binade_between [where lo = 32], simp_all,
      rule binade_between [where lo = 64], simp_all,
      rule binade_between [where lo = 128], simp_all)

lemmas dbl_eval = dbl_def binade_at ulp_def powr_neg_numeral rne_def Let_def

lemma binary64_ops:
  "fadd binary64 x y = dbl (x + y)" "fsub binary64 x y = dbl (x - y)"
  "fmul binary64 x y = dbl (x * y)" "fdiv binary64 x y = dbl (x / y)"
  "fsqrt binary64 x = dbl (sqrt x)" "fcos binary64 x = dbl (cos x)"
  "fsin binary64 x = dbl (sin x)"
  by (simp_all add: binary64_def)

text \<open>The doubles that the literals of the source denote.\<close>

lemma literals:
  "dbl 0.5 = 1 / 2"
  "dbl 0.75 = 3 / 4"
  "dbl 0.2 = 3602879701896397 / 18014398509481984"
  "dbl 0.6 = 5404319552844595 / 9007199254740992"
  "dbl 0.7 = 3152519739159347 / 4503599627370496"
  "dbl 0.8 = 3602879701896397 / 4503599627370496"
  "dbl 2.1 = 4728779608739021 / 2251799813685248"
  "dbl 4.2 = 4728779608739021 / 1125899906842624"
  "dbl 1.5 = 3 / 2"
  "dbl 3.0 = 3"
  "dbl 4.25 = 17 / 4"
  "dbl 5.75 = 23 / 4"
  "dbl 7.25 = 29 / 4"
  by (simp_all add: dbl_eval)

lemma dbl_small: "dbl 0 = 0" "dbl 1 = 1" "dbl (- 1) = - 1"
  by (simp_all add: dbl_eval)

lemma dbl_minus: "dbl (- x) = - dbl x"
  by (simp add: dbl_def binade_def Let_def sgn_minus)

text \<open>Doubles are rounded to themselves: the values that the evaluations below meet.\<close>

lemma exact_values:
  "dbl (1 / 2) = 1 / 2" "dbl (1 / 4) = 1 / 4" "dbl (3 / 4) = 3 / 4" "dbl (9 / 16) = 9 / 16"
  "dbl (3 / 2) = 3 / 2" "dbl 3 = 3" "dbl 6 = 6" "dbl 36 = 36"
  "dbl (17 / 4) = 17 / 4" "dbl (23 / 4) = 23 / 4" "dbl (29 / 4) = 29 / 4"
  "dbl (41 / 4) = 41 / 4" "dbl (17 / 2) = 17 / 2" "dbl (29 / 2) = 29 / 2"
  "dbl (289 / 4) = 289 / 4" "dbl (841 / 4) = 841 / 4"
  "dbl (4728779608739021 / 2251799813685248) = 4728779608739021 / 2251799813685248"
  "dbl (4728779608739021 / 1125899906842624) = 4728779608739021 / 1125899906842624"
  "dbl (4728779608739021 / 562949953421312) = 4728779608739021 / 562949953421312"
  "dbl (3602879701896397 / 4503599627370496) = 3602879701896397 / 4503599627370496"
  by (simp_all add: dbl_eval)

text \<open>The same literals as the simplifier writes them.\<close>

lemma literals_reduced:
  "dbl (1 / 5) = 3602879701896397 / 18014398509481984"
  "dbl (3 / 5) = 5404319552844595 / 9007199254740992"
  "dbl (7 / 10) = 3152519739159347 / 4503599627370496"
  "dbl (4 / 5) = 3602879701896397 / 4503599627370496"
  "dbl (21 / 10) = 4728779608739021 / 2251799813685248"
  "dbl (21 / 5) = 4728779608739021 / 1125899906842624"
  by (simp_all add: dbl_eval)

lemmas eval64 = binary64_ops dbl_small dbl_minus exact_values literals_reduced
  real_sqrt_divide

lemma max_distance: "MAX_CONNECTION_DISTANCE = 0.5"
  by (simp add: MAX_CONNECTION_DISTANCE_def dbl_eval)


lemma world_utility_of_lab:
  "getWorldConnectionPoints binary64 labAtOrigin ! 2 =
     \<lparr>cp_id = ''utility'', cp_position = (dbl 2.1, 0, 0), cp_normal = (1, 0, 0),
      cp_type = ''utility'', worldPosition = (dbl 2.1, 0, 0), worldNormal = (1, 0, 0),
      moduleId = ''lab-1''\<rparr>"
  unfolding getWorldConnectionPoints_def findDefinition_def catalog_defs toWorld_def
    labAtOrigin_def literals
  by (simp add: eval64)

lemma world_west_of_hub:
  "getWorldConnectionPoints binary64 hubEast ! 3 =
     \<lparr>cp_id = ''west'', cp_position = (- dbl 2.1, 0, 0), cp_normal = (- 1, 0, 0),
      cp_type = ''structural'', worldPosition = (dbl 2.1, 0, 0), worldNormal = (- 1, 0, 0),
      moduleId = ''hub-1''\<rparr>"
  unfolding getWorldConnectionPoints_def findDefinition_def catalog_defs toWorld_def
    hubEast_def literals
  by (simp add: eval64)

subsection \<open>The compatibility rule\<close>

text \<open>
  Claim C1. The type check of \<^const>\<open>canConnect\<close> is directional: only the first point's
  type is looked up in the table (structural gives [structural], utility gives
  [structural, utility], external gives []). For a utility point A and a structural
  point B that are within the maximum distance and whose normals are opposed (dot
  product at most the threshold of the alignment check), \<open>canConnect A B\<close> is positive
  while \<open>canConnect B A\<close> is negative with the incompatible-type reason.
\<close>

theorem canConnect_directional:
  assumes "cp_type A = UTILITY" and "cp_type B = STRUCTURAL"
    and "distance3D ar (worldPosition A) (worldPosition B) \<le> MAX_CONNECTION_DISTANCE"
    and "dotProduct ar (worldNormal A) (worldNormal B) \<le> - dbl 0.7"
  shows "canConnect ar A B = \<lparr>ok = True, reason = Valid\<rparr>
       \<and> canConnect ar B A = \<lparr>ok = False, reason = Incompatible STRUCTURAL UTILITY\<rparr>
       \<and> rulesFor STRUCTURAL = [STRUCTURAL]
       \<and> rulesFor UTILITY = [STRUCTURAL, UTILITY]
       \<and> rulesFor EXTERNAL = []"
  using assms
  by (simp add: canConnect_def Let_def rulesFor_table)
     (simp add: STRUCTURAL_def UTILITY_def)

text \<open>The laboratory's utility port against the west port of a hub placed beside it, in
  the program's arithmetic.\<close>

theorem canConnect_directional_witness:
  "cp_type (getWorldConnectionPoints binary64 labAtOrigin ! 2) = UTILITY
   \<and> cp_type (getWorldConnectionPoints binary64 hubEast ! 3) = STRUCTURAL
   \<and> distance3D binary64 (worldPosition (getWorldConnectionPoints binary64 labAtOrigin ! 2))
        (worldPosition (getWorldConnectionPoints binary64 hubEast ! 3)) \<le>
       MAX_CONNECTION_DISTANCE
   \<and> dotProduct binary64 (worldNormal (getWorldConnectionPoints binary64 labAtOrigin ! 2))
        (worldNormal (getWorldConnectionPoints binary64 hubEast ! 3)) \<le> - dbl 0.7
   \<and> ok (canConnect binary64 (getWorldConnectionPoints binary64 labAtOrigin ! 2)
            (getWorldConnectionPoints binary64 hubEast ! 3))
   \<and> canConnect binary64 (getWorldConnectionPoints binary64 hubEast ! 3)
        (getWorldConnectionPoints binary64 labAtOrigin ! 2) =
      \<lparr>ok = False, reason = Incompatible ''structural'' ''utility''\<rparr>"
proof -
  let ?A = "getWorldConnectionPoints binary64 labAtOrigin ! 2"
  let ?B = "getWorldConnectionPoints binary64 hubEast ! 3"
  have t: "cp_type ?A = UTILITY" "cp_type ?B = STRUCTURAL"
    by (simp_all add: world_utility_of_lab world_west_of_hub UTILITY_def STRUCTURAL_def)
  have "distance3D binary64 (worldPosition ?A) (worldPosition ?B) = 0"
    by (simp add: world_utility_of_lab world_west_of_hub eval64)
  then have d: "distance3D binary64 (worldPosition ?A) (worldPosition ?B) \<le>
      MAX_CONNECTION_DISTANCE"
    by (simp add: max_distance)
  have "dotProduct binary64 (worldNormal ?A) (worldNormal ?B) = - 1"
    by (simp add: world_utility_of_lab world_west_of_hub eval64)
  then have a: "dotProduct binary64 (worldNormal ?A) (worldNormal ?B) \<le> - dbl 0.7"
    by (simp add: dbl_eval)
  from canConnect_directional [OF t d a] t d a show ?thesis
    by (simp add: STRUCTURAL_def UTILITY_def)
qed

text \<open>
  Two structural points whose Euclidean distance is above 0.5 by less than the rounding
  of the sum of squares: the distance the program computes is 0.5, and the pair passes
  the distance check.
\<close>

theorem canConnect_euclidean_counterexample:
  "euclidean (0, 0, 0) (1 / 2, 1 / 2 ^ 30, 0) > 0.5
   \<and> distance3D binary64 (0, 0, 0) (1 / 2, 1 / 2 ^ 30, 0) = 0.5
   \<and> List.member (rulesFor ''structural'') ''structural''
   \<and> canConnect binary64 (structuralAt (0, 0, 0) (0, 0, 1))
         (structuralAt (1 / 2, 1 / 2 ^ 30, 0) (0, 0, - 1)) = \<lparr>ok = True, reason = Valid\<rparr>"
proof -
  have "sqrt (1 / 4) < sqrt (1 / 4 + 1 / 2 ^ 60)"
    by (subst real_sqrt_less_iff) simp
  moreover have "sqrt (1 / 4) = 1 / 2"
    by (simp add: real_sqrt_divide)
  ultimately have e: "euclidean (0, 0, 0) (1 / 2, 1 / 2 ^ 30, 0) > 0.5"
    by (simp add: power2_eq_square power_divide)
  have small: "dbl (1 / 1073741824) = 1 / 1073741824"
    by (simp add: dbl_eval)
  have tiny: "dbl (1 / 1152921504606846976) = 1 / 1152921504606846976"
    by (simp add: dbl_eval)
  have sum: "dbl (288230376151711745 / 1152921504606846976) = 1 / 4"
    by (simp add: dbl_eval)
  have d: "distance3D binary64 (0, 0, 0) (1 / 2, 1 / 2 ^ 30, 0) = 0.5"
    by (simp add: eval64 small tiny sum)
  have m: "List.member (rulesFor ''structural'') ''structural''"
    using rulesFor_table(1) by (simp add: STRUCTURAL_def)
  have a: "dotProduct binary64 (0, 0, 1) (0, 0, - 1) = - 1"
    by (simp add: eval64)
  have "- 1 \<le> - dbl 0.7"
    by (simp add: dbl_eval)
  with m d a have "canConnect binary64 (structuralAt (0, 0, 0) (0, 0, 1))
         (structuralAt (1 / 2, 1 / 2 ^ 30, 0) (0, 0, - 1)) = \<lparr>ok = True, reason = Valid\<rparr>"
    by (simp add: canConnect_def structuralAt_def max_distance Let_def)
  with e d m show ?thesis
    by (intro conjI)
qed

text \<open>
  Claim C7, as amended. For every pair of connection points that passes the type check,
  \<^const>\<open>canConnect\<close> fails with a too-far reason exactly when the distance that
  \<^const>\<open>distance3D\<close> computes for the world positions, in the arithmetic of the program,
  is strictly greater than the maximum of 0.5; a pair whose computed distance is exactly
  0.5 passes the distance check.
\<close>

theorem canConnect_too_far_iff:
  assumes "List.member (rulesFor (cp_type point1)) (cp_type point2)"
  shows "(isTooFar (reason (canConnect ar point1 point2)) \<longleftrightarrow>
           distance3D ar (worldPosition point1) (worldPosition point2) > 0.5)
       \<and> (reason (canConnect ar point1 point2) =
             TooFar (distance3D ar (worldPosition point1) (worldPosition point2)) \<longleftrightarrow>
           distance3D ar (worldPosition point1) (worldPosition point2) > 0.5)
       \<and> (distance3D ar (worldPosition point1) (worldPosition point2) > 0.5 \<longrightarrow>
             \<not> ok (canConnect ar point1 point2))
       \<and> MAX_CONNECTION_DISTANCE = 0.5"
  using assms
  by (simp add: canConnect_def Let_def isTooFar_def max_distance)

text \<open>Two structural points exactly 0.5 apart, and two points 0.75 apart, in the
  program's arithmetic.\<close>

theorem canConnect_too_far_iff_witness:
  "List.member (rulesFor ''structural'') ''structural''
   \<and> distance3D binary64 (0, 0, 0) (0, 0, 0.5) = 0.5
   \<and> \<not> isTooFar (reason (canConnect binary64 (structuralAt (0, 0, 0) (0, 0, 1))
                                      (structuralAt (0, 0, 0.5) (0, 0, - 1))))
   \<and> distance3D binary64 (0, 0, 0) (0, 0, 0.75) > 0.5
   \<and> reason (canConnect binary64 (structuralAt (0, 0, 0) (0, 0, 1))
                         (structuralAt (0, 0, 0.75) (0, 0, - 1))) = TooFar 0.75"
proof -
  have m: "List.member (rulesFor ''structural'') ''structural''"
    using rulesFor_table(1) by (simp add: STRUCTURAL_def)
  have d1: "distance3D binary64 (0, 0, 0) (0, 0, 0.5) = 0.5"
    by (simp add: eval64)
  have d2: "distance3D binary64 (0, 0, 0) (0, 0, 0.75) = 0.75"
    by (simp add: eval64)
  have t: "cp_type (structuralAt p n) = ''structural''" for p n
    by (simp add: structuralAt_def)
  have w: "worldPosition (structuralAt p n) = p" for p n
    by (simp add: structuralAt_def)
  note near = canConnect_too_far_iff
    [of "structuralAt (0, 0, 0) (0, 0, 1)" "structuralAt (0, 0, 0.5) (0, 0, - 1)" binary64,
     unfolded t w d1, OF m]
  note far = canConnect_too_far_iff
    [of "structuralAt (0, 0, 0) (0, 0, 1)" "structuralAt (0, 0, 0.75) (0, 0, - 1)" binary64,
     unfolded t w d2, OF m]
  have "\<not> isTooFar (reason (canConnect binary64 (structuralAt (0, 0, 0) (0, 0, 1))
                                        (structuralAt (0, 0, 0.5) (0, 0, - 1))))"
    using near [THEN conjunct1] by simp
  moreover
  have "reason (canConnect binary64 (structuralAt (0, 0, 0) (0, 0, 1))
                           (structuralAt (0, 0, 0.75) (0, 0, - 1))) = TooFar 0.75"
    using far [THEN conjunct2, THEN conjunct1] by simp
  ultimately show ?thesis
    using m d1 d2 by simp
qed

subsection \<open>Adding a module\<close>

text \<open>
  Claim C9. \<^const>\<open>addModule\<close> with a definition id that is not in the catalog returns
  no module id and leaves the habitat state unchanged: no module instance is created
  and the statistics are those before the call.
\<close>

theorem addModule_unknown_definition:
  assumes "findDefinition defId = None"
  shows "addModule uuid now defId position rotation state = (None, state)
       \<and> modules (snd (addModule uuid now defId position rotation state)) = modules state
       \<and> statistics (snd (addModule uuid now defId position rotation state)) =
           statistics state"
  using assms by (simp add: addModule_def)

theorem addModule_unknown_definition_witness:
  "findDefinition ''greenhouse'' = None
   \<and> addModule ''id-1'' 0 ''greenhouse'' (0, 0, 0) (0, 0, 0) initialState =
       (None, initialState)"
proof -
  have "findDefinition ''greenhouse'' = None"
    by (simp add: findDefinition_def catalog_defs)
  with addModule_unknown_definition [of "''greenhouse''" "''id-1''" 0 "(0, 0, 0)" "(0, 0, 0)" initialState]
  show ?thesis by simp
qed

subsection \<open>Removing a module\<close>

text \<open>A hub and a laboratory joined by one connection; the hub is then removed. The
  connection that references the hub is still in the state.\<close>

theorem removeModule_cascade_counterexample:
  "connections (removeModule ''hub-1'' linkedState) = [hubLabLink]
   \<and> moduleId1 hubLabLink = ''hub-1''
   \<and> map mod_id (modules linkedState) = [''hub-1'', ''lab-1'']
   \<and> map mod_id (modules (removeModule ''hub-1'' linkedState)) = [''lab-1'']"
  by (simp add: removeModule_def linkedState_def initialState_def Let_def hubLabLink_def hubM_def labNorth_def)

text \<open>
  Claim C5, as amended. Deleting a module instance leaves the connections of the habitat
  state as they are (a connection that references the deleted module stays, and now
  dangles); it removes the modules with that id and clears the current selection if it
  pointed at the removed module.
\<close>

theorem removeModule_leaves_connections:
  "connections (removeModule i state) = connections state
   \<and> modules (removeModule i state) = filter (\<lambda>m. mod_id m \<noteq> i) (modules state)
   \<and> selectedModuleId (removeModule i state) =
       (if selectedModuleId state = Some i then None else selectedModuleId state)"
  by (simp add: removeModule_def Let_def)


subsection \<open>Validation errors\<close>

lemma collisionsWith_set:
  "set (collisionsWith ar mi rest errs) =
     set errs \<union> {collisionError mi mj | mj. mj \<in> set rest \<and> checkModuleCollision ar mi mj}"
  by (induction rest arbitrary: errs) auto

lemma collisionLoop_origin:
  "e \<in> set (collisionLoop ar ms errs) \<Longrightarrow>
     e \<in> set errs \<or>
     (\<exists>i j. i < j \<and> j < length ms \<and> e = collisionError (ms ! i) (ms ! j)
            \<and> checkModuleCollision ar (ms ! i) (ms ! j))"
proof (induction ms arbitrary: errs)
  case Nil
  then show ?case by simp
next
  case (Cons m ms)
  from Cons.prems have "e \<in> set (collisionLoop ar ms (collisionsWith ar m ms errs))"
    by simp
  from Cons.IH [OF this] show ?case
  proof
    assume "e \<in> set (collisionsWith ar m ms errs)"
    then consider "e \<in> set errs"
      | mj where "mj \<in> set ms" "e = collisionError m mj" "checkModuleCollision ar m mj"
      by (auto simp: collisionsWith_set)
    then show ?thesis
    proof cases
      case 1
      then show ?thesis by simp
    next
      case 2
      then obtain k where "k < length ms" "ms ! k = mj"
        by (auto simp: in_set_conv_nth)
      with 2 have "0 < Suc k \<and> Suc k < length (m # ms)
          \<and> e = collisionError ((m # ms) ! 0) ((m # ms) ! Suc k)
          \<and> checkModuleCollision ar ((m # ms) ! 0) ((m # ms) ! Suc k)"
        by simp
      then show ?thesis by blast
    qed
  next
    assume "\<exists>i j. i < j \<and> j < length ms \<and> e = collisionError (ms ! i) (ms ! j)
            \<and> checkModuleCollision ar (ms ! i) (ms ! j)"
    then obtain i j where "i < j" "j < length ms" "e = collisionError (ms ! i) (ms ! j)"
        "checkModuleCollision ar (ms ! i) (ms ! j)"
      by blast
    then have "Suc i < Suc j \<and> Suc j < length (m # ms)
          \<and> e = collisionError ((m # ms) ! Suc i) ((m # ms) ! Suc j)
          \<and> checkModuleCollision ar ((m # ms) ! Suc i) ((m # ms) ! Suc j)"
      by simp
    then show ?thesis by blast
  qed
qed

lemma checkConnection_append:
  "checkConnection ar ms c errs = errs @ checkConnection ar ms c []"
  by (simp add: checkConnection_def Let_def split: option.splits)

lemma fold_checkConnection:
  "fold (checkConnection ar ms) cs errs = errs @ concat (map (\<lambda>c. checkConnection ar ms c []) cs)"
proof (induction cs arbitrary: errs)
  case Nil
  then show ?case by simp
next
  case (Cons c cs)
  show ?case
    by (simp add: Cons.IH [of "checkConnection ar ms c errs"])
       (simp add: checkConnection_append [of ar ms c errs])
qed

lemma checkConnection_own:
  "e \<in> set (checkConnection ar ms c []) \<Longrightarrow>
     err_connectionId e = Some (conn_id c) \<and> err_type e \<noteq> ''collision''"
  by (auto simp: checkConnection_def Let_def referenceError_def pointError_def ruleError_def
      split: option.splits if_splits)

lemma checkModuleCollision_unknown:
  "findDefinition (definitionId m1) = None \<or> findDefinition (definitionId m2) = None \<Longrightarrow>
     \<not> checkModuleCollision ar m1 m2"
  by (auto simp: checkModuleCollision_def split: option.splits)

lemma checkModuleCollision_known:
  "checkModuleCollision ar m1 m2 \<Longrightarrow>
     findDefinition (definitionId m1) \<noteq> None \<and> findDefinition (definitionId m2) \<noteq> None"
  by (auto simp: checkModuleCollision_def split: option.splits)

lemma errors_validateHabitat:
  "errors (validateHabitat ar ms cs) =
     collisionLoop ar ms [] @ concat (map (\<lambda>c. checkConnection ar ms c []) cs)"
  by (simp add: validateHabitat_def Let_def fold_checkConnection)

lemma find_hub: "findDefinition ''central-hub'' = Some central_hub"
  by (simp add: findDefinition_def moduleDefinitions_def central_hub_def)

lemma find_greenhouse: "findDefinition ''greenhouse'' = None"
  by (simp add: findDefinition_def catalog_defs)

text \<open>
  Claim C10. For every pair of module instances of which at least one has a definition
  id that is not in the catalog, \<^const>\<open>checkModuleCollision\<close> is false; so every
  collision error of \<^const>\<open>validateHabitat\<close> is about two modules whose definitions
  are both known, wherever the modules are.
\<close>

theorem no_collision_with_unknown_definition:
  "(findDefinition (definitionId m1) = None \<or> findDefinition (definitionId m2) = None
      \<longrightarrow> \<not> checkModuleCollision ar m1 m2)
   \<and> (\<forall>e \<in> set (errors (validateHabitat ar ms cs)).
         err_type e = ''collision'' \<longrightarrow>
           (\<exists>i j. i < j \<and> j < length ms \<and> e = collisionError (ms ! i) (ms ! j)
              \<and> findDefinition (definitionId (ms ! i)) \<noteq> None
              \<and> findDefinition (definitionId (ms ! j)) \<noteq> None))"
proof (intro conjI impI ballI)
  assume "findDefinition (definitionId m1) = None \<or> findDefinition (definitionId m2) = None"
  then show "\<not> checkModuleCollision ar m1 m2"
    by (rule checkModuleCollision_unknown)
next
  fix e
  assume e: "e \<in> set (errors (validateHabitat ar ms cs))" and t: "err_type e = ''collision''"
  from e t have "e \<in> set (collisionLoop ar ms [])"
    by (auto simp: errors_validateHabitat dest: checkConnection_own)
  then obtain i j where ij: "i < j" "j < length ms" "e = collisionError (ms ! i) (ms ! j)"
      "checkModuleCollision ar (ms ! i) (ms ! j)"
    by (auto dest: collisionLoop_origin)
  from ij(4) have "findDefinition (definitionId (ms ! i)) \<noteq> None
      \<and> findDefinition (definitionId (ms ! j)) \<noteq> None"
    by (rule checkModuleCollision_known)
  then show "\<exists>i j. i < j \<and> j < length ms \<and> e = collisionError (ms ! i) (ms ! j)
              \<and> findDefinition (definitionId (ms ! i)) \<noteq> None
              \<and> findDefinition (definitionId (ms ! j)) \<noteq> None"
    using ij by blast
qed

text \<open>Two overlapping hubs and, inside the first, a module of an unknown definition.\<close>

theorem no_collision_with_unknown_definition_witness:
  "findDefinition (definitionId ghostM) = None
   \<and> \<not> checkModuleCollision binary64 hubM ghostM
   \<and> errors (validateHabitat binary64 [hubM, ghostM, hubTwin] []) = [collisionError hubM hubTwin]
   \<and> (\<exists>i j. i < j \<and> j < length [hubM, ghostM, hubTwin]
          \<and> collisionError hubM hubTwin =
              collisionError ([hubM, ghostM, hubTwin] ! i) ([hubM, ghostM, hubTwin] ! j)
          \<and> findDefinition (definitionId ([hubM, ghostM, hubTwin] ! i)) \<noteq> None
          \<and> findDefinition (definitionId ([hubM, ghostM, hubTwin] ! j)) \<noteq> None)"
proof -
  have g: "findDefinition (definitionId ghostM) = None"
    by (simp add: ghostM_def find_greenhouse)
  have "dbl (79263353441720733 / 18014398509481984) = 2476979795053773 / 562949953421312"
    by (simp add: dbl_eval)
  then have col: "checkModuleCollision binary64 hubM hubTwin"
    by (simp add: checkModuleCollision_def hubM_def hubTwin_def find_hub central_hub_def
        COLLISION_BUFFER_def eval64)
  have n: "\<not> checkModuleCollision binary64 ghostM hubTwin"
    by (simp add: checkModuleCollision_def g split: option.splits)
  note w = no_collision_with_unknown_definition
    [of hubM ghostM binary64 "[hubM, ghostM, hubTwin]" "[]"]
  from w g have n': "\<not> checkModuleCollision binary64 hubM ghostM"
    by blast
  have e: "errors (validateHabitat binary64 [hubM, ghostM, hubTwin] []) = [collisionError hubM hubTwin]"
    by (simp add: validateHabitat_def Let_def col n n')
  have t: "err_type (collisionError hubM hubTwin) = ''collision''"
    by (simp add: collisionError_def)
  from w have "\<forall>e \<in> set [collisionError hubM hubTwin].
         err_type e = ''collision'' \<longrightarrow>
           (\<exists>i j. i < j \<and> j < length [hubM, ghostM, hubTwin]
              \<and> e = collisionError ([hubM, ghostM, hubTwin] ! i) ([hubM, ghostM, hubTwin] ! j)
              \<and> findDefinition (definitionId ([hubM, ghostM, hubTwin] ! i)) \<noteq> None
              \<and> findDefinition (definitionId ([hubM, ghostM, hubTwin] ! j)) \<noteq> None)"
    unfolding e by (rule conjunct2)
  with t have "\<exists>i j. i < j \<and> j < length [hubM, ghostM, hubTwin]
          \<and> collisionError hubM hubTwin =
              collisionError ([hubM, ghostM, hubTwin] ! i) ([hubM, ghostM, hubTwin] ! j)
          \<and> findDefinition (definitionId ([hubM, ghostM, hubTwin] ! i)) \<noteq> None
          \<and> findDefinition (definitionId ([hubM, ghostM, hubTwin] ! j)) \<noteq> None"
    by simp
  with g n' e show ?thesis
    by (intro conjI)
qed


lemma findModule_None: "findModule ms i = None \<longleftrightarrow> i \<notin> mod_id ` set ms"
  by (auto simp: findModule_def find_None_iff)

lemma checkConnection_dangling:
  "moduleId1 c \<notin> mod_id ` set ms \<or> moduleId2 c \<notin> mod_id ` set ms \<Longrightarrow>
     checkConnection ar ms c errs = errs @ [referenceError c]"
  by (auto simp: checkConnection_def findModule_None [symmetric] split: option.splits)

lemma collisionLoop_no_connectionId:
  "e \<in> set (collisionLoop ar ms []) \<Longrightarrow> err_connectionId e = None"
  by (auto dest!: collisionLoop_origin simp: collisionError_def)

lemma filter_other_connections:
  "conn_id c \<notin> conn_id ` set cs \<Longrightarrow>
     filter (\<lambda>e. err_connectionId e = Some (conn_id c))
       (concat (map (\<lambda>c. checkConnection ar ms c []) cs)) = []"
  by (induction cs) (auto simp: filter_empty_conv dest: checkConnection_own)

lemma filter_own_connection:
  "filter (\<lambda>e. err_connectionId e = Some (conn_id c)) (checkConnection ar ms c []) =
     checkConnection ar ms c []"
  by (auto simp: filter_id_conv dest: checkConnection_own)

lemma filter_connection_errors:
  "c \<in> set cs \<Longrightarrow> distinct (map conn_id cs) \<Longrightarrow>
     filter (\<lambda>e. err_connectionId e = Some (conn_id c))
       (concat (map (\<lambda>c. checkConnection ar ms c []) cs)) = checkConnection ar ms c []"
proof (induction cs)
  case Nil
  then show ?case by simp
next
  case (Cons a cs)
  show ?case
  proof (cases "a = c")
    case True
    with Cons.prems have "conn_id c \<notin> conn_id ` set cs"
      by simp
    with True show ?thesis
      by (simp add: filter_other_connections filter_own_connection)
  next
    case False
    with Cons.prems have c: "c \<in> set cs" and d: "distinct (map conn_id cs)"
      and ne: "conn_id a \<noteq> conn_id c"
      by auto
    from ne have "filter (\<lambda>e. err_connectionId e = Some (conn_id c)) (checkConnection ar ms a []) = []"
      by (auto simp: filter_empty_conv dest: checkConnection_own)
    with Cons.IH [OF c d] show ?thesis
      by simp
  qed
qed

text \<open>
  Claim C4. For every module list and connection list (the connections having distinct
  ids) in which a connection references a module id that is not in the module list,
  \<^const>\<open>validateHabitat\<close> reports exactly one error carrying that connection's id,
  the invalid-reference error; it is a total function, so nothing is thrown; and the
  distance and alignment checks are not applied to that connection, since no other
  error carries its id.
\<close>

theorem dangling_connection_one_error:
  assumes "c \<in> set cs"
    and "moduleId1 c \<notin> mod_id ` set ms \<or> moduleId2 c \<notin> mod_id ` set ms"
    and "distinct (map conn_id cs)"
  shows "filter (\<lambda>e. err_connectionId e = Some (conn_id c)) (errors (validateHabitat ar ms cs))
           = [referenceError c]
       \<and> checkConnection ar ms c errs = errs @ [referenceError c]
       \<and> referenceError c \<in> set (errors (validateHabitat ar ms cs))
       \<and> \<not> isValid (validateHabitat ar ms cs)"
proof -
  have own: "checkConnection ar ms c errs = errs @ [referenceError c]" for errs
    using assms(2) by (rule checkConnection_dangling)
  have "filter (\<lambda>e. err_connectionId e = Some (conn_id c)) (collisionLoop ar ms []) = []"
    by (auto simp: filter_empty_conv dest: collisionLoop_no_connectionId)
  then have f: "filter (\<lambda>e. err_connectionId e = Some (conn_id c))
      (errors (validateHabitat ar ms cs)) = [referenceError c]"
    using filter_connection_errors [OF assms(1) assms(3), of ar ms] own [of "[]"]
    by (simp add: errors_validateHabitat)
  have "referenceError c \<in> set (filter (\<lambda>e. err_connectionId e = Some (conn_id c))
      (errors (validateHabitat ar ms cs)))"
    unfolding f by simp
  then have m: "referenceError c \<in> set (errors (validateHabitat ar ms cs))"
    by simp
  then have "errors (validateHabitat ar ms cs) \<noteq> []"
    by auto
  then have "\<not> isValid (validateHabitat ar ms cs)"
    by (simp add: validateHabitat_def Let_def)
  with own f m show ?thesis
    by simp
qed

text \<open>The state after the hub of a hub-laboratory pair was removed.\<close>

theorem dangling_connection_one_error_witness:
  "hubLabLink \<in> set (connections (removeModule ''hub-1'' linkedState))
   \<and> moduleId1 hubLabLink \<notin> mod_id ` set (modules (removeModule ''hub-1'' linkedState))
   \<and> distinct (map conn_id (connections (removeModule ''hub-1'' linkedState)))
   \<and> filter (\<lambda>e. err_connectionId e = Some (conn_id hubLabLink))
        (errors (validateHabitat binary64 (modules (removeModule ''hub-1'' linkedState))
                                 (connections (removeModule ''hub-1'' linkedState))))
      = [referenceError hubLabLink]"
proof -
  have ms: "modules (removeModule ''hub-1'' linkedState) = [labNorth]"
    by (simp add: removeModule_def linkedState_def initialState_def Let_def hubM_def
        labNorth_def)
  have cs: "connections (removeModule ''hub-1'' linkedState) = [hubLabLink]"
    by (simp add: removeModule_def linkedState_def initialState_def Let_def)
  have h: "hubLabLink \<in> set [hubLabLink]"
      "moduleId1 hubLabLink \<notin> mod_id ` set [labNorth]"
      "distinct (map conn_id [hubLabLink])"
    by (simp_all add: hubLabLink_def labNorth_def)
  from dangling_connection_one_error
    [of hubLabLink "[hubLabLink]" "[labNorth]" binary64, OF h(1) _ h(3)] h
  show ?thesis
    unfolding ms cs by blast
qed


subsection \<open>Statistics\<close>

lemma calculateStatistics_Nil:
  "calculateStatistics [] = statistics initialState"
  by (simp add: calculateStatistics_def zeroTotals_def initialState_def)

lemma statistics_invariant:
  "reachable s \<Longrightarrow> statistics s = calculateStatistics (modules s)"
proof (induction rule: reachable.induct)
  case init
  show ?case
    by (simp add: calculateStatistics_def zeroTotals_def initialState_def)
next
  case (step s a)
  then show ?case
    by (cases a) (simp_all add: Let_def initialState_def)
qed

lemma powerBalance_calculateStatistics:
  "powerBalance (calculateStatistics ms) =
     totalPowerGeneration (calculateStatistics ms) - totalPowerConsumption (calculateStatistics ms)"
  by (simp add: calculateStatistics_def Let_def)

lemma calculateStatistics_snoc:
  assumes "findDefinition (definitionId m) = Some d"
  shows "totalMass (calculateStatistics (ms @ [m])) = totalMass (calculateStatistics ms) + mass d"
    and "totalCost (calculateStatistics (ms @ [m])) = totalCost (calculateStatistics ms) + cost d"
    and "totalCrewCapacity (calculateStatistics (ms @ [m])) =
           totalCrewCapacity (calculateStatistics ms) + crewCapacity d"
  using assms by (simp_all add: calculateStatistics_def Let_def accumulate_def)

lemma filter_fresh:
  "i \<notin> mod_id ` set ms \<Longrightarrow> filter (\<lambda>m. mod_id m \<noteq> i) ms = ms"
  by (auto simp: filter_id_conv)

lemma find_lab: "findDefinition ''laboratory'' = Some laboratory"
  by (simp add: findDefinition_def moduleDefinitions_def central_hub_def living_quarters_def
      laboratory_def)

text \<open>
  Claim C8. The statistics are a function of the current module list: in every state
  the provider can reach they equal \<^const>\<open>calculateStatistics\<close> of the modules. Adding
  a module whose definition exists (under a fresh id) increases totalMass, totalCost and
  totalCrewCapacity by exactly the definition's values; removing that module again
  gives back the statistics from before the addition; and powerBalance is
  totalPowerGeneration minus totalPowerConsumption.
\<close>

theorem statistics_add_remove_roundtrip:
  assumes "reachable state" and "findDefinition defId = Some d"
    and "uuid \<notin> mod_id ` set (modules state)"
  shows "fst (addModule uuid now defId position rotation state) = Some uuid
    \<and> totalMass (statistics (snd (addModule uuid now defId position rotation state))) =
        totalMass (statistics state) + mass d
    \<and> totalCost (statistics (snd (addModule uuid now defId position rotation state))) =
        totalCost (statistics state) + cost d
    \<and> totalCrewCapacity (statistics (snd (addModule uuid now defId position rotation state))) =
        totalCrewCapacity (statistics state) + crewCapacity d
    \<and> statistics (removeModule uuid (snd (addModule uuid now defId position rotation state))) =
        statistics state
    \<and> statistics state = calculateStatistics (modules state)
    \<and> statistics (snd (addModule uuid now defId position rotation state)) =
        calculateStatistics (modules (snd (addModule uuid now defId position rotation state)))
    \<and> powerBalance (statistics state) =
        totalPowerGeneration (statistics state) - totalPowerConsumption (statistics state)
    \<and> powerBalance (statistics (snd (addModule uuid now defId position rotation state))) =
        totalPowerGeneration (statistics (snd (addModule uuid now defId position rotation state)))
        - totalPowerConsumption (statistics (snd (addModule uuid now defId position rotation state)))"
proof -
  let ?m = "\<lparr>mod_id = uuid, definitionId = defId, mod_position = position,
              mod_rotation = rotation, mod_timestamp = Some now\<rparr>"
  let ?s = "snd (addModule uuid now defId position rotation state)"
  have inv: "statistics state = calculateStatistics (modules state)"
    using assms(1) by (rule statistics_invariant)
  have add: "addModule uuid now defId position rotation state =
      (Some uuid, habitatReducer state (ADD_MODULE ?m))"
    using assms(2) by (simp add: addModule_def)
  have mods: "modules ?s = modules state @ [?m]"
    and stats: "statistics ?s = calculateStatistics (modules state @ [?m])"
    by (simp_all add: add Let_def)
  have d: "findDefinition (definitionId ?m) = Some d"
    using assms(2) by simp
  have restored: "filter (\<lambda>m. mod_id m \<noteq> uuid) (modules ?s) = modules state"
    using assms(3) by (simp add: mods filter_fresh)
  have rem: "statistics (removeModule uuid ?s) = statistics state"
    by (simp add: removeModule_def Let_def restored inv)
  have f1: "fst (addModule uuid now defId position rotation state) = Some uuid"
    by (simp add: add)
  have f2: "totalMass (statistics ?s) = totalMass (statistics state) + mass d"
    unfolding stats inv by (rule calculateStatistics_snoc(1) [OF d])
  have f3: "totalCost (statistics ?s) = totalCost (statistics state) + cost d"
    unfolding stats inv by (rule calculateStatistics_snoc(2) [OF d])
  have f4: "totalCrewCapacity (statistics ?s) =
      totalCrewCapacity (statistics state) + crewCapacity d"
    unfolding stats inv by (rule calculateStatistics_snoc(3) [OF d])
  have f5: "statistics ?s = calculateStatistics (modules ?s)"
    unfolding stats mods by (rule refl)
  have f6: "powerBalance (statistics state) =
      totalPowerGeneration (statistics state) - totalPowerConsumption (statistics state)"
    unfolding inv by (rule powerBalance_calculateStatistics)
  have f7: "powerBalance (statistics ?s) =
      totalPowerGeneration (statistics ?s) - totalPowerConsumption (statistics ?s)"
    unfolding stats by (rule powerBalance_calculateStatistics)
  from f1 f2 f3 f4 rem inv f5 f6 f7 show ?thesis
    by (intro conjI)
qed

text \<open>A hub is added to a habitat that holds one laboratory, and removed again.\<close>

theorem statistics_add_remove_roundtrip_witness:
  "reachable labOnly
   \<and> findDefinition ''central-hub'' = Some central_hub
   \<and> ''id-2'' \<notin> mod_id ` set (modules labOnly)
   \<and> totalMass (statistics labOnly) = 14000
   \<and> totalMass (statistics (snd (addModule ''id-2'' 5 ''central-hub'' (0, 0, 0) (0, 0, 0) labOnly)))
       = 29000
   \<and> statistics (removeModule ''id-2''
        (snd (addModule ''id-2'' 5 ''central-hub'' (0, 0, 0) (0, 0, 0) labOnly))) =
      statistics labOnly"
proof -
  have r: "reachable labOnly"
    unfolding labOnly_def by (rule reachable.step [OF reachable.init])
  have m: "modules labOnly = [labNorth]"
    by (simp add: labOnly_def initialState_def Let_def)
  have f: "''id-2'' \<notin> mod_id ` set (modules labOnly)"
    by (simp add: m labNorth_def)
  have t: "totalMass (statistics labOnly) = 14000"
    by (simp add: labOnly_def initialState_def calculateStatistics_def accumulate_def
        zeroTotals_def labNorth_def find_lab Let_def) (simp add: laboratory_def)
  note w = statistics_add_remove_roundtrip [OF r find_hub f, of 5 "(0, 0, 0)" "(0, 0, 0)"]
  have "totalMass (statistics (snd (addModule ''id-2'' 5 ''central-hub'' (0, 0, 0) (0, 0, 0) labOnly)))
      = totalMass (statistics labOnly) + mass central_hub"
    using w by (elim conjE)
  then have a: "totalMass (statistics (snd (addModule ''id-2'' 5 ''central-hub'' (0, 0, 0) (0, 0, 0) labOnly)))
      = 29000"
    by (simp add: t central_hub_def)
  have b: "statistics (removeModule ''id-2''
        (snd (addModule ''id-2'' 5 ''central-hub'' (0, 0, 0) (0, 0, 0) labOnly))) =
      statistics labOnly"
    using w by (elim conjE)
  from r find_hub f t a b show ?thesis
    by (intro conjI)
qed


subsection \<open>Potential-connection search\<close>

text \<open>The loops that push onto the array enumerate the accepted pairs in order.\<close>

lemma pushCandidate_append:
  "pushCandidate ar em tp ep acc =
     acc @ (if ok (canConnect ar tp ep)
            then [\<lparr>targetPoint = tp, existingPoint = ep, existingModule = em,
                   distance = distance3D ar (worldPosition tp) (worldPosition ep)\<rparr>]
            else [])"
  by (simp add: pushCandidate_def Let_def)

lemma fold_pushCandidate:
  "fold (pushCandidate ar em tp) eps acc =
     acc @ [\<lparr>targetPoint = tp, existingPoint = ep, existingModule = em,
             distance = distance3D ar (worldPosition tp) (worldPosition ep)\<rparr>.
            ep \<leftarrow> eps, ok (canConnect ar tp ep)]"
  by (induction eps arbitrary: acc) (simp_all add: pushCandidate_append)

lemma fold_targetPoints:
  "fold (\<lambda>tp acc. fold (pushCandidate ar em tp) eps acc) tps acc =
     acc @ [\<lparr>targetPoint = tp, existingPoint = ep, existingModule = em,
             distance = distance3D ar (worldPosition tp) (worldPosition ep)\<rparr>.
            tp \<leftarrow> tps, ep \<leftarrow> eps, ok (canConnect ar tp ep)]"
  by (induction tps arbitrary: acc) (simp_all add: fold_pushCandidate)

lemma fold_existingModules:
  "fold (\<lambda>em acc.
       if mod_id em = i then acc
       else let existingPoints = getWorldConnectionPoints ar em
            in fold (\<lambda>tp acc. fold (pushCandidate ar em tp) existingPoints acc) tps acc)
     ms acc =
   acc @ [\<lparr>targetPoint = tp, existingPoint = ep, existingModule = m,
           distance = distance3D ar (worldPosition tp) (worldPosition ep)\<rparr>.
          m \<leftarrow> ms, mod_id m \<noteq> i, tp \<leftarrow> tps, ep \<leftarrow> getWorldConnectionPoints ar m,
          ok (canConnect ar tp ep)]"
  by (induction ms arbitrary: acc) (simp_all add: fold_targetPoints Let_def)

lemma findPotentialConnections_enumerated:
  "findPotentialConnections ar targetModule targetPosition existingModules =
     sort_key distance
       [\<lparr>targetPoint = tp, existingPoint = ep, existingModule = m,
          distance = distance3D ar (worldPosition tp) (worldPosition ep)\<rparr>.
        m \<leftarrow> existingModules, mod_id m \<noteq> mod_id targetModule,
        tp \<leftarrow> getWorldConnectionPoints ar (targetModule\<lparr>mod_position := targetPosition\<rparr>),
        ep \<leftarrow> getWorldConnectionPoints ar m, ok (canConnect ar tp ep)]"
  unfolding findPotentialConnections_def Let_def fold_existingModules [unfolded Let_def]
  by simp

lemma find_quarters: "findDefinition ''living-quarters'' = Some living_quarters"
  by (simp add: findDefinition_def moduleDefinitions_def central_hub_def living_quarters_def)

lemma find_airlock: "findDefinition ''airlock'' = Some airlock"
  by (simp add: findDefinition_def moduleDefinitions_def central_hub_def living_quarters_def
      laboratory_def airlock_def)

lemma find_storage: "findDefinition ''storage'' = Some storage"
  by (simp add: findDefinition_def moduleDefinitions_def central_hub_def living_quarters_def
      laboratory_def airlock_def storage_def)

lemma ok_structural:
  assumes "cp_type p = ''structural''" and "cp_type q = ''structural''"
  shows "ok (canConnect ar p q) \<longleftrightarrow>
           distance3D ar (worldPosition p) (worldPosition q) \<le> 1 / 2
           \<and> dotProduct ar (worldNormal p) (worldNormal q) \<le> - dbl 0.7"
  using assms rulesFor_table(1)
  by (auto simp: canConnect_def Let_def STRUCTURAL_def max_distance)

lemma not_ok_external:
  assumes "cp_type p = ''structural''" and "cp_type q = ''external''"
  shows "\<not> ok (canConnect ar p q)"
  using assms rulesFor_table(1)
  by (simp add: canConnect_def Let_def STRUCTURAL_def)

lemma points_quarters:
  "getWorldConnectionPoints binary64 (quartersM\<lparr>mod_position := (0, 0, 0)\<rparr>) =
    [\<lparr>cp_id = ''front'', cp_position = (0, 0, 17 / 4), cp_normal = (0, 0, 1),
      cp_type = ''structural'', worldPosition = (0, 0, 17 / 4), worldNormal = (0, 0, 1),
      moduleId = ''quarters-1''\<rparr>,
     \<lparr>cp_id = ''back'', cp_position = (0, 0, - (17 / 4)), cp_normal = (0, 0, - 1),
      cp_type = ''structural'', worldPosition = (0, 0, - (17 / 4)), worldNormal = (0, 0, - 1),
      moduleId = ''quarters-1''\<rparr>]"
  unfolding getWorldConnectionPoints_def quartersM_def living_quarters_def mkPoint_def
    toWorld_def literals
  by (simp add: find_quarters living_quarters_def mkPoint_def literals eval64)

lemma points_airlock:
  "getWorldConnectionPoints binary64 airlockNorth =
    [\<lparr>cp_id = ''inner'', cp_position = (0, 0, - (3 / 2)), cp_normal = (0, 0, - 1),
      cp_type = ''structural'', worldPosition = (0, 0, 17 / 4), worldNormal = (0, 0, - 1),
      moduleId = ''airlock-n''\<rparr>,
     \<lparr>cp_id = ''outer'', cp_position = (0, 0, 3 / 2), cp_normal = (0, 0, 1),
      cp_type = ''external'', worldPosition = (0, 0, 29 / 4), worldNormal = (0, 0, 1),
      moduleId = ''airlock-n''\<rparr>]"
  unfolding getWorldConnectionPoints_def airlockNorth_def toWorld_def literals
  by (simp add: find_airlock airlock_def mkPoint_def literals eval64)

lemma points_storage:
  "getWorldConnectionPoints binary64 storageSouth =
    [\<lparr>cp_id = ''front'', cp_position = (0, 0, 3), cp_normal = (0, 0, 1),
      cp_type = ''structural'', worldPosition = (0, 0, - (17 / 4)), worldNormal = (0, 0, 1),
      moduleId = ''storage-s''\<rparr>,
     \<lparr>cp_id = ''back'', cp_position = (0, 0, - 3), cp_normal = (0, 0, - 1),
      cp_type = ''structural'', worldPosition = (0, 0, - (41 / 4)), worldNormal = (0, 0, - 1),
      moduleId = ''storage-s''\<rparr>]"
  unfolding getWorldConnectionPoints_def storageSouth_def toWorld_def literals
  by (simp add: find_storage storage_def mkPoint_def literals eval64)

lemma sample_module_ids:
  "mod_id airlockNorth = ''airlock-n''" "mod_id storageSouth = ''storage-s''"
  "mod_id quartersM = ''quarters-1''"
  by (simp_all add: airlockNorth_def storageSouth_def quartersM_def)

lemma threshold_above_minus_one: "- 1 \<le> - dbl 0.7" "\<not> 1 \<le> - dbl 0.7"
  by (simp_all add: dbl_eval)

lemma search_north_south:
  "findPotentialConnections binary64 quartersM (0, 0, 0) [airlockNorth, storageSouth] =
     [\<lparr>targetPoint = getWorldConnectionPoints binary64 (quartersM\<lparr>mod_position := (0, 0, 0)\<rparr>) ! 0,
       existingPoint = getWorldConnectionPoints binary64 airlockNorth ! 0,
       existingModule = airlockNorth, distance = 0\<rparr>,
      \<lparr>targetPoint = getWorldConnectionPoints binary64 (quartersM\<lparr>mod_position := (0, 0, 0)\<rparr>) ! 1,
       existingPoint = getWorldConnectionPoints binary64 storageSouth ! 0,
       existingModule = storageSouth, distance = 0\<rparr>]"
  unfolding findPotentialConnections_enumerated
  by (simp add: sample_module_ids points_quarters points_airlock points_storage
      ok_structural not_ok_external threshold_above_minus_one eval64)

lemma search_south_north:
  "findPotentialConnections binary64 quartersM (0, 0, 0) [storageSouth, airlockNorth] =
     [\<lparr>targetPoint = getWorldConnectionPoints binary64 (quartersM\<lparr>mod_position := (0, 0, 0)\<rparr>) ! 1,
       existingPoint = getWorldConnectionPoints binary64 storageSouth ! 0,
       existingModule = storageSouth, distance = 0\<rparr>,
      \<lparr>targetPoint = getWorldConnectionPoints binary64 (quartersM\<lparr>mod_position := (0, 0, 0)\<rparr>) ! 0,
       existingPoint = getWorldConnectionPoints binary64 airlockNorth ! 0,
       existingModule = airlockNorth, distance = 0\<rparr>]"
  unfolding findPotentialConnections_enumerated
  by (simp add: sample_module_ids points_quarters points_airlock points_storage
      ok_structural not_ok_external threshold_above_minus_one eval64)

lemma point_ids:
  "cp_id (getWorldConnectionPoints binary64 (quartersM\<lparr>mod_position := (0, 0, 0)\<rparr>) ! 0) = ''front''"
  "cp_id (getWorldConnectionPoints binary64 (quartersM\<lparr>mod_position := (0, 0, 0)\<rparr>) ! 1) = ''back''"
  "cp_id (getWorldConnectionPoints binary64 airlockNorth ! 0) = ''inner''"
  "cp_id (getWorldConnectionPoints binary64 storageSouth ! 0) = ''front''"
  unfolding points_quarters points_airlock points_storage by simp_all

text \<open>
  A living-quarters module between an airlock and a storage module: its front port
  meets the inner port of the airlock and its back port meets the front port of the
  storage module, both at distance 0. The two candidates come out in the order of the
  module list, whichever way the point ids compare.
\<close>

theorem findPotentialConnections_tie_counterexample:
  "map summary (findPotentialConnections binary64 quartersM (0, 0, 0)
      [airlockNorth, storageSouth]) =
     [(''front'', ''inner'', ''airlock-n'', 0), (''back'', ''front'', ''storage-s'', 0)]
   \<and> map summary (findPotentialConnections binary64 quartersM (0, 0, 0)
      [storageSouth, airlockNorth]) =
     [(''back'', ''front'', ''storage-s'', 0), (''front'', ''inner'', ''airlock-n'', 0)]
   \<and> ''back'' < ''front'' \<and> ''front'' < ''inner''
   \<and> \<not> sorted_wrt byDistanceThenPointIds
         (findPotentialConnections binary64 quartersM (0, 0, 0) [airlockNorth, storageSouth])"
proof -
  have lt: "''back'' < ''front''" "''front'' < ''inner''"
    by simp_all
  have s1: "map summary (findPotentialConnections binary64 quartersM (0, 0, 0)
      [airlockNorth, storageSouth]) =
     [(''front'', ''inner'', ''airlock-n'', 0), (''back'', ''front'', ''storage-s'', 0)]"
    unfolding search_north_south
    by (simp add: summary_def point_ids [simplified] sample_module_ids)
  have s2: "map summary (findPotentialConnections binary64 quartersM (0, 0, 0)
      [storageSouth, airlockNorth]) =
     [(''back'', ''front'', ''storage-s'', 0), (''front'', ''inner'', ''airlock-n'', 0)]"
    unfolding search_south_north
    by (simp add: summary_def point_ids [simplified] sample_module_ids)
  have "\<not> sorted_wrt byDistanceThenPointIds
         (findPotentialConnections binary64 quartersM (0, 0, 0) [airlockNorth, storageSouth])"
    unfolding search_north_south
    by (simp add: byDistanceThenPointIds_def point_ids [simplified])
  with s1 s2 lt show ?thesis
    by (intro conjI)
qed

text \<open>
  Claim C3, as amended. \<^const>\<open>findPotentialConnections\<close> returns exactly the pairs of a
  target point and a point of another module (one whose id differs from the target's)
  that \<^const>\<open>canConnect\<close> accepts, each with the distance that \<^const>\<open>distance3D\<close>
  computes for the world positions, sorted ascending by that distance; candidates at
  the same distance keep the order of enumeration: existing modules in list order, then
  the target's points in the order of its definition, then the existing module's
  points in the order of theirs.
\<close>

theorem findPotentialConnections_sorted_stable:
  "findPotentialConnections ar targetModule targetPosition existingModules =
     sort_key distance
       [\<lparr>targetPoint = tp, existingPoint = ep, existingModule = m,
          distance = distance3D ar (worldPosition tp) (worldPosition ep)\<rparr>.
        m \<leftarrow> existingModules, mod_id m \<noteq> mod_id targetModule,
        tp \<leftarrow> getWorldConnectionPoints ar (targetModule\<lparr>mod_position := targetPosition\<rparr>),
        ep \<leftarrow> getWorldConnectionPoints ar m, ok (canConnect ar tp ep)]
   \<and> set (findPotentialConnections ar targetModule targetPosition existingModules) =
     {\<lparr>targetPoint = tp, existingPoint = ep, existingModule = m,
       distance = distance3D ar (worldPosition tp) (worldPosition ep)\<rparr> | tp ep m.
        m \<in> set existingModules \<and> mod_id m \<noteq> mod_id targetModule
        \<and> tp \<in> set (getWorldConnectionPoints ar (targetModule\<lparr>mod_position := targetPosition\<rparr>))
        \<and> ep \<in> set (getWorldConnectionPoints ar m)
        \<and> ok (canConnect ar tp ep)}
   \<and> mset (findPotentialConnections ar targetModule targetPosition existingModules) =
       mset
         [\<lparr>targetPoint = tp, existingPoint = ep, existingModule = m,
            distance = distance3D ar (worldPosition tp) (worldPosition ep)\<rparr>.
          m \<leftarrow> existingModules, mod_id m \<noteq> mod_id targetModule,
          tp \<leftarrow> getWorldConnectionPoints ar (targetModule\<lparr>mod_position := targetPosition\<rparr>),
          ep \<leftarrow> getWorldConnectionPoints ar m, ok (canConnect ar tp ep)]
   \<and> sorted (map distance
         (findPotentialConnections ar targetModule targetPosition existingModules))
   \<and> filter (\<lambda>c. distance c = d)
         (findPotentialConnections ar targetModule targetPosition existingModules) =
       filter (\<lambda>c. distance c = d)
         [\<lparr>targetPoint = tp, existingPoint = ep, existingModule = m,
            distance = distance3D ar (worldPosition tp) (worldPosition ep)\<rparr>.
          m \<leftarrow> existingModules, mod_id m \<noteq> mod_id targetModule,
          tp \<leftarrow> getWorldConnectionPoints ar (targetModule\<lparr>mod_position := targetPosition\<rparr>),
          ep \<leftarrow> getWorldConnectionPoints ar m, ok (canConnect ar tp ep)]"
proof -
  let ?E = "[\<lparr>targetPoint = tp, existingPoint = ep, existingModule = m,
          distance = distance3D ar (worldPosition tp) (worldPosition ep)\<rparr>.
        m \<leftarrow> existingModules, mod_id m \<noteq> mod_id targetModule,
        tp \<leftarrow> getWorldConnectionPoints ar (targetModule\<lparr>mod_position := targetPosition\<rparr>),
        ep \<leftarrow> getWorldConnectionPoints ar m, ok (canConnect ar tp ep)]"
  let ?F = "findPotentialConnections ar targetModule targetPosition existingModules"
  have e: "?F = sort_key distance ?E"
    by (rule findPotentialConnections_enumerated)
  have "set ?E =
     {\<lparr>targetPoint = tp, existingPoint = ep, existingModule = m,
       distance = distance3D ar (worldPosition tp) (worldPosition ep)\<rparr> | tp ep m.
        m \<in> set existingModules \<and> mod_id m \<noteq> mod_id targetModule
        \<and> tp \<in> set (getWorldConnectionPoints ar (targetModule\<lparr>mod_position := targetPosition\<rparr>))
        \<and> ep \<in> set (getWorldConnectionPoints ar m)
        \<and> ok (canConnect ar tp ep)}"
    by (auto split: if_splits)
  then have s: "set ?F =
     {\<lparr>targetPoint = tp, existingPoint = ep, existingModule = m,
       distance = distance3D ar (worldPosition tp) (worldPosition ep)\<rparr> | tp ep m.
        m \<in> set existingModules \<and> mod_id m \<noteq> mod_id targetModule
        \<and> tp \<in> set (getWorldConnectionPoints ar (targetModule\<lparr>mod_position := targetPosition\<rparr>))
        \<and> ep \<in> set (getWorldConnectionPoints ar m)
        \<and> ok (canConnect ar tp ep)}"
    unfolding e by (simp only: set_sort)
  have m: "mset ?F = mset ?E"
    unfolding e by (rule mset_sort)
  have o: "sorted (map distance ?F)"
    unfolding e by (rule sorted_sort_key)
  have f: "filter (\<lambda>c. distance c = d) ?F = filter (\<lambda>c. distance c = d) ?E"
    unfolding e by (rule sort_key_stable)
  from e s m o f show ?thesis
    by (intro conjI)
qed

subsection \<open>Structural reachability\<close>

lemma links_Cons:
  "links (c # cs) = {(moduleId1 c, moduleId2 c), (moduleId2 c, moduleId1 c)} \<union> links cs"
  by (auto simp: links_def)

lemma links_endpoints: "(x, y) \<in> links cs \<Longrightarrow> x \<in> endpoints cs \<and> y \<in> endpoints cs"
  by (auto simp: links_def endpoints_def)

lemma visit_keeps: "set toVisit \<subseteq> set (visitConnections cs cur con toVisit)"
  by (induction cs cur con toVisit rule: visitConnections.induct) auto

lemma visit_sound:
  "set (visitConnections cs cur con toVisit) \<subseteq> set toVisit \<union> {y. (cur, y) \<in> links cs}"
  by (induction cs cur con toVisit rule: visitConnections.induct) (auto simp: links_Cons)

lemma visit_complete:
  "(cur, y) \<in> links cs \<Longrightarrow> cur \<in> set con \<Longrightarrow>
     y \<in> set con \<union> set (visitConnections cs cur con toVisit)"
proof (induction cs cur con toVisit rule: visitConnections.induct)
  case (1 currentId connectedIds toVisit)
  then show ?case by (simp add: links_def)
next
  case (2 c cs currentId connectedIds toVisit)
  let ?tv = "if moduleId1 c = currentId \<and> moduleId2 c \<notin> set connectedIds
          then moduleId2 c # toVisit
        else if moduleId2 c = currentId \<and> moduleId1 c \<notin> set connectedIds
          then moduleId1 c # toVisit
        else toVisit"
  from "2.prems"(1) consider
      (here) "(currentId, y) = (moduleId1 c, moduleId2 c) \<or> (currentId, y) = (moduleId2 c, moduleId1 c)"
    | (later) "(currentId, y) \<in> links cs"
    by (auto simp: links_Cons)
  then show ?case
  proof cases
    case here
    with "2.prems"(2) have "y \<in> set connectedIds \<or> y \<in> set ?tv"
      by auto
    with visit_keeps [of ?tv cs currentId connectedIds] show ?thesis
      by auto
  next
    case later
    with "2.IH" "2.prems"(2) show ?thesis
      by simp
  qed
qed

lemma walk_mono: "set con \<subseteq> set (walk cs toVisit con)"
  by (induction cs toVisit con rule: walk.induct) (auto simp: Let_def)

lemma walk_distinct: "distinct con \<Longrightarrow> distinct (walk cs toVisit con)"
  by (induction cs toVisit con rule: walk.induct) (auto simp: Let_def)

lemma walk_stack: "set toVisit \<subseteq> set (walk cs toVisit con)"
proof (induction cs toVisit con rule: walk.induct)
  case (1 connections connectedIds)
  then show ?case by simp
next
  case (2 connections currentId toVisit connectedIds)
  show ?case
  proof (cases "currentId \<in> set connectedIds")
    case True
    with "2.IH"(1) walk_mono [of connectedIds connections toVisit] show ?thesis
      by auto
  next
    case False
    let ?con = "connectedIds @ [currentId]"
    let ?tv = "visitConnections connections currentId ?con toVisit"
    from False "2.IH"(2) have "set ?tv \<subseteq> set (walk connections ?tv ?con)"
      by simp
    with visit_keeps [of toVisit connections currentId ?con]
      walk_mono [of ?con connections ?tv] False
    show ?thesis
      by (auto simp: Let_def)
  qed
qed

text \<open>The marked identifiers whose neighbours are all marked or on the stack stay so, and
  at the end the marked identifiers are closed under the connection relation.\<close>

lemma walk_closed:
  assumes "\<And>x y. x \<in> set con \<Longrightarrow> (x, y) \<in> links cs \<Longrightarrow> y \<in> set con \<union> set toVisit"
    and "x \<in> set (walk cs toVisit con)" and "(x, y) \<in> links cs"
  shows "y \<in> set (walk cs toVisit con)"
  using assms
proof (induction cs toVisit con rule: walk.induct)
  case (1 connections connectedIds)
  then show ?case by auto
next
  case (2 connections currentId toVisit connectedIds)
  show ?case
  proof (cases "currentId \<in> set connectedIds")
    case True
    have inv: "\<And>x y. x \<in> set connectedIds \<Longrightarrow> (x, y) \<in> links connections \<Longrightarrow>
        y \<in> set connectedIds \<union> set toVisit"
      using "2.prems"(1) True by fastforce
    from True "2.prems"(2) have "x \<in> set (walk connections toVisit connectedIds)"
      by simp
    from "2.IH"(1) [OF True inv this "2.prems"(3)] True show ?thesis
      by simp
  next
    case False
    let ?con = "connectedIds @ [currentId]"
    let ?tv = "visitConnections connections currentId ?con toVisit"
    have inv: "y \<in> set ?con \<union> set ?tv" if "x \<in> set ?con" "(x, y) \<in> links connections" for x y
    proof (cases "x = currentId")
      case True
      with that(2) visit_complete [of currentId y connections ?con toVisit] show ?thesis
        by simp
    next
      case False
      with that have "y \<in> set connectedIds \<union> set (currentId # toVisit)"
        using "2.prems"(1) by simp
      with visit_keeps [of toVisit connections currentId ?con] show ?thesis
        by auto
    qed
    from False "2.prems"(2) have "x \<in> set (walk connections ?tv ?con)"
      by (simp add: Let_def)
    from "2.IH"(2) [OF False refl inv this "2.prems"(3)] False show ?thesis
      by (simp add: Let_def)
  qed
qed

lemma walk_sound:
  assumes "\<And>x. x \<in> set con \<union> set toVisit \<Longrightarrow> (s, x) \<in> (links cs)\<^sup>*"
    and "x \<in> set (walk cs toVisit con)"
  shows "(s, x) \<in> (links cs)\<^sup>*"
  using assms
proof (induction cs toVisit con rule: walk.induct)
  case (1 connections connectedIds)
  then show ?case by simp
next
  case (2 connections currentId toVisit connectedIds)
  show ?case
  proof (cases "currentId \<in> set connectedIds")
    case True
    with "2.IH"(1) [OF True] "2.prems" show ?thesis
      by simp
  next
    case False
    let ?con = "connectedIds @ [currentId]"
    let ?tv = "visitConnections connections currentId ?con toVisit"
    have cur: "(s, currentId) \<in> (links connections)\<^sup>*"
      using "2.prems"(1) by simp
    have inv: "(s, z) \<in> (links connections)\<^sup>*" if "z \<in> set ?con \<union> set ?tv" for z
    proof -
      from that visit_sound [of connections currentId ?con toVisit]
      consider "z \<in> set connectedIds \<union> set (currentId # toVisit)"
        | "(currentId, z) \<in> links connections"
        by auto
      then show ?thesis
      proof cases
        case 1
        then show ?thesis using "2.prems"(1) by blast
      next
        case 2
        with cur show ?thesis by (rule rtrancl_into_rtrancl)
      qed
    qed
    from False "2.prems"(2) have "x \<in> set (walk connections ?tv ?con)"
      by (simp add: Let_def)
    from "2.IH"(2) [OF False refl inv this] show ?thesis .
  qed
qed

lemma walk_reaches:
  "set (walk cs [s] []) = {x. reaches cs s x}"
proof (intro equalityI subsetI)
  fix x assume "x \<in> set (walk cs [s] [])"
  then have "(s, x) \<in> (links cs)\<^sup>*"
    by (rule walk_sound [rotated]) simp
  then show "x \<in> {x. reaches cs s x}"
    by (simp add: reaches_def)
next
  fix x assume "x \<in> {x. reaches cs s x}"
  then have "(s, x) \<in> (links cs)\<^sup>*"
    by (simp add: reaches_def)
  then show "x \<in> set (walk cs [s] [])"
  proof (induction rule: rtrancl_induct)
    case base
    with walk_stack [of "[s]" cs "[]"] show ?case by simp
  next
    case (step y z)
    show ?case
      by (rule walk_closed [OF _ step.IH step.hyps(2)]) simp
  qed
qed


declare walk.simps [simp del]

lemma reaches_endpoint:
  "reaches cs s x \<Longrightarrow> x = s \<or> x \<in> endpoints cs"
  unfolding reaches_def
  by (induction rule: rtrancl_induct) (auto dest: links_endpoints)

lemma reaches_isolated:
  assumes "s \<notin> endpoints cs" and "reaches cs s x"
  shows "x = s"
  using assms(2) unfolding reaches_def
proof (induction rule: rtrancl_induct)
  case base
  show ?case by simp
next
  case (step y z)
  with assms(1) show ?case
    by (auto dest: links_endpoints)
qed

lemma length_walk: "length (walk cs [s] []) = card {x. reaches cs s x}"
proof -
  have "distinct (walk cs [s] [])"
    by (rule walk_distinct) simp
  then have "length (walk cs [s] []) = card (set (walk cs [s] []))"
    by (simp add: distinct_card)
  then show ?thesis
    by (simp add: walk_reaches)
qed

lemma start_reached: "s \<in> set (walk cs [s] [])"
  by (simp add: walk_reaches reaches_def)

text \<open>With distinct module ids, the modules the walk did not reach are as many as the
  module count exceeds the size of the marked set, provided every marked id is a
  module.\<close>

lemma unreached_count:
  assumes d: "distinct (map mod_id ms)" and sub: "set (walk cs [s] []) \<subseteq> mod_id ` set ms"
  shows "card {m \<in> set ms. \<not> reaches cs s (mod_id m)} = length ms - length (walk cs [s] [])"
proof -
  let ?R = "set (walk cs [s] [])"
  from d have inj: "inj_on mod_id (set ms)" and dm: "distinct ms"
    by (simp_all add: distinct_map)
  let ?U = "{m \<in> set ms. mod_id m \<notin> ?R}"
  have u: "{m \<in> set ms. \<not> reaches cs s (mod_id m)} = ?U"
    by (simp add: walk_reaches)
  have "inj_on mod_id ?U"
    by (rule inj_on_subset [OF inj]) auto
  then have "card (mod_id ` ?U) = card ?U"
    by (rule card_image)
  moreover have "mod_id ` ?U = mod_id ` set ms - ?R"
    by auto
  moreover have "card (mod_id ` set ms - ?R) = card (mod_id ` set ms) - card ?R"
    using sub by (simp add: card_Diff_subset)
  moreover have "card (mod_id ` set ms) = length ms"
    using inj dm by (simp add: card_image distinct_card)
  moreover have "card ?R = length (walk cs [s] [])"
    by (simp add: length_walk walk_reaches)
  ultimately have "card ?U = length ms - length (walk cs [s] [])"
    by simp
  then show ?thesis
    unfolding u .
qed

lemma warning_unreached:
  assumes d: "distinct (map mod_id ms)"
    and w: "connectivityWarnings ms cs \<noteq> []"
  shows "2 \<le> length ms \<and> (\<exists>m \<in> set ms. \<not> reaches cs (mod_id (ms ! 0)) (mod_id m))"
proof -
  let ?s = "mod_id (ms ! 0)"
  from w have len: "1 < length ms" and less: "length (walk cs [?s] []) < length ms"
    by (auto simp: connectivityWarnings_def Let_def split: if_splits)
  have "\<not> mod_id ` set ms \<subseteq> set (walk cs [?s] [])"
  proof
    assume "mod_id ` set ms \<subseteq> set (walk cs [?s] [])"
    then have "card (mod_id ` set ms) \<le> card (set (walk cs [?s] []))"
      by (simp add: card_mono)
    moreover have "card (mod_id ` set ms) = length ms"
      using d by (metis distinct_card length_map set_map)
    moreover have "card (set (walk cs [?s] [])) \<le> length (walk cs [?s] [])"
      by (rule card_length)
    ultimately show False
      using less by simp
  qed
  then obtain m where "m \<in> set ms" "mod_id m \<notin> set (walk cs [?s] [])"
    by auto
  then have "\<exists>m \<in> set ms. \<not> reaches cs ?s (mod_id m)"
    by (auto simp: walk_reaches)
  with len show ?thesis
    by simp
qed

lemma isolated_warning:
  assumes d: "distinct (map mod_id ms)" and len: "2 \<le> length ms"
    and wf: "endpoints cs \<subseteq> mod_id ` set ms"
    and iso: "C \<in> set ms" "mod_id C \<notin> endpoints cs"
  shows "connectivityWarnings ms cs =
           [disconnectedWarning
              (int (card {m \<in> set ms. \<not> reaches cs (mod_id (ms ! 0)) (mod_id m)}))]
       \<and> 1 \<le> card {m \<in> set ms. \<not> reaches cs (mod_id (ms ! 0)) (mod_id m)}
       \<and> card {m \<in> set ms. \<not> reaches cs (mod_id (ms ! 0)) (mod_id m)} < length ms"
proof -
  let ?s = "mod_id (ms ! 0)"
  let ?R = "walk cs [?s] []"
  let ?U = "{m \<in> set ms. \<not> reaches cs ?s (mod_id m)}"
  from len have "0 < length ms"
    by linarith
  then have s: "ms ! 0 \<in> set ms"
    by (rule nth_mem)
  have sub: "set ?R \<subseteq> mod_id ` set ms"
    using reaches_endpoint [of cs ?s] wf s by (auto simp: walk_reaches)
  have cnt: "card ?U = length ms - length ?R"
    using d sub by (rule unreached_count)
  have "\<exists>m \<in> set ms. \<not> reaches cs ?s (mod_id m)"
  proof (cases "mod_id C = ?s")
    case False
    with iso reaches_endpoint [of cs ?s "mod_id C"] show ?thesis
      by auto
  next
    case True
    from len have "1 < length ms"
      by linarith
    then have "ms ! 1 \<in> set ms"
      by (rule nth_mem)
    moreover have "mod_id (ms ! 1) \<noteq> mod_id (ms ! 0)"
    proof
      assume eq: "mod_id (ms ! 1) = mod_id (ms ! 0)"
      from len have l: "1 < length ms" "0 < length ms"
        by linarith+
      have "(map mod_id ms ! 1 = map mod_id ms ! 0) = ((1::nat) = 0)"
        by (rule nth_eq_iff_index_eq [OF d]) (simp_all only: length_map l)
      moreover have "map mod_id ms ! 1 = map mod_id ms ! 0"
        using eq by (simp only: nth_map l)
      ultimately show False
        by simp
    qed
    moreover from True iso(2) have "?s \<notin> endpoints cs"
      by simp
    ultimately show ?thesis
      using reaches_isolated [of ?s cs "mod_id (ms ! 1)"] by auto
  qed
  then have "?U \<noteq> {}"
    by auto
  then have pos: "1 \<le> card ?U"
    by (simp add: Suc_le_eq card_gt_0_iff)
  have "1 \<le> length ?R"
    using start_reached [of ?s cs] by (cases ?R) auto
  with cnt len have up: "card ?U < length ms"
    by simp
  from pos cnt have less: "length ?R < length ms"
    by simp
  with len cnt have "connectivityWarnings ms cs = [disconnectedWarning (int (card ?U))]"
    by (simp add: connectivityWarnings_def Let_def of_nat_diff)
  with pos up show ?thesis
    by simp
qed

lemma walk_hub_lab: "walk [hubLabLink] [''hub-1''] [] = [''hub-1'', ''lab-1'']"
  by (simp add: walk.simps hubLabLink_def Let_def)

lemma sample_ids:
  "mod_id hubM = ''hub-1''" "mod_id labNorth = ''lab-1''"
  "mod_id storageFar = ''storage-1''" "mod_id recreationFar = ''recreation-1''"
  by (simp_all add: hubM_def labNorth_def storageFar_def recreationFar_def)

text \<open>
  A hub joined to a laboratory, and a third module that no connection mentions. The
  warning is the same record whichever module is the isolated one: its fields are the
  type, the message with the count, and the severity.
\<close>

theorem disconnection_warning_counterexample:
  "warnings (validateHabitat binary64 [hubM, labNorth, storageFar] [hubLabLink]) =
     [\<lparr>warn_type = ''disconnected_modules'', warn_message = NotConnected 1,
       warn_severity = ''warning''\<rparr>]
   \<and> warnings (validateHabitat binary64 [hubM, labNorth, recreationFar] [hubLabLink]) =
     [\<lparr>warn_type = ''disconnected_modules'', warn_message = NotConnected 1,
       warn_severity = ''warning''\<rparr>]
   \<and> mod_id storageFar = ''storage-1'' \<and> mod_id recreationFar = ''recreation-1''"
  by (simp add: validateHabitat_def Let_def connectivityWarnings_def sample_ids walk_hub_lab
      disconnectedWarning_def)

text \<open>
  Claim C6, as amended. For modules with distinct ids: \<^const>\<open>validateHabitat\<close> emits a
  disconnection warning only when there are at least two modules and some module is
  unreachable from the first module through the undirected connection relation; with
  zero or one module it never emits one; and when a module C is isolated among three
  modules (every connection joining modules of the list) it emits exactly one
  disconnection warning, which carries the number of unreached modules, 1 or 2, and no
  module id.
\<close>

theorem disconnection_warning_reachability:
  assumes "distinct (map mod_id ms)"
  shows "(warnings (validateHabitat ar ms cs) \<noteq> [] \<longrightarrow>
            2 \<le> length ms \<and> (\<exists>m \<in> set ms. \<not> reaches cs (mod_id (ms ! 0)) (mod_id m)))
       \<and> (length ms \<le> 1 \<longrightarrow> warnings (validateHabitat ar ms cs) = [])
       \<and> (length ms = 3 \<and> endpoints cs \<subseteq> mod_id ` set ms
            \<and> (\<exists>C \<in> set ms. mod_id C \<notin> endpoints cs) \<longrightarrow>
          warnings (validateHabitat ar ms cs) =
            [\<lparr>warn_type = ''disconnected_modules'',
              warn_message = NotConnected
                (int (card {m \<in> set ms. \<not> reaches cs (mod_id (ms ! 0)) (mod_id m)})),
              warn_severity = ''warning''\<rparr>]
          \<and> card {m \<in> set ms. \<not> reaches cs (mod_id (ms ! 0)) (mod_id m)} \<in> {1, 2})"
proof -
  have w: "warnings (validateHabitat ar ms cs) = connectivityWarnings ms cs"
    by (simp add: validateHabitat_def Let_def)
  have a: "warnings (validateHabitat ar ms cs) \<noteq> [] \<longrightarrow>
            2 \<le> length ms \<and> (\<exists>m \<in> set ms. \<not> reaches cs (mod_id (ms ! 0)) (mod_id m))"
    unfolding w using warning_unreached [OF assms] by blast
  have b: "length ms \<le> 1 \<longrightarrow> warnings (validateHabitat ar ms cs) = []"
    unfolding w by (simp add: connectivityWarnings_def)
  have c: "length ms = 3 \<and> endpoints cs \<subseteq> mod_id ` set ms
            \<and> (\<exists>C \<in> set ms. mod_id C \<notin> endpoints cs) \<longrightarrow>
          warnings (validateHabitat ar ms cs) =
            [\<lparr>warn_type = ''disconnected_modules'',
              warn_message = NotConnected
                (int (card {m \<in> set ms. \<not> reaches cs (mod_id (ms ! 0)) (mod_id m)})),
              warn_severity = ''warning''\<rparr>]
          \<and> card {m \<in> set ms. \<not> reaches cs (mod_id (ms ! 0)) (mod_id m)} \<in> {1, 2}"
  proof (intro impI, elim conjE bexE)
    fix C
    assume h: "length ms = 3" "endpoints cs \<subseteq> mod_id ` set ms" "C \<in> set ms"
      "mod_id C \<notin> endpoints cs"
    from h(1) have "2 \<le> length ms"
      by simp
    from isolated_warning [OF assms this h(2) h(3) h(4)] h(1)
    show "warnings (validateHabitat ar ms cs) =
            [\<lparr>warn_type = ''disconnected_modules'',
              warn_message = NotConnected
                (int (card {m \<in> set ms. \<not> reaches cs (mod_id (ms ! 0)) (mod_id m)})),
              warn_severity = ''warning''\<rparr>]
          \<and> card {m \<in> set ms. \<not> reaches cs (mod_id (ms ! 0)) (mod_id m)} \<in> {1, 2}"
      unfolding w disconnectedWarning_def by auto
  qed
  from a b c show ?thesis
    by (intro conjI)
qed


theorem disconnection_warning_reachability_witness:
  "distinct (map mod_id [hubM, labNorth, storageFar])
   \<and> length [hubM, labNorth, storageFar] = 3
   \<and> endpoints [hubLabLink] \<subseteq> mod_id ` set [hubM, labNorth, storageFar]
   \<and> storageFar \<in> set [hubM, labNorth, storageFar]
   \<and> mod_id storageFar \<notin> endpoints [hubLabLink]
   \<and> warnings (validateHabitat binary64 [hubM, labNorth, storageFar] [hubLabLink]) =
       [\<lparr>warn_type = ''disconnected_modules'', warn_message = NotConnected 1,
         warn_severity = ''warning''\<rparr>]
   \<and> card {m \<in> set [hubM, labNorth, storageFar].
             \<not> reaches [hubLabLink] (mod_id ([hubM, labNorth, storageFar] ! 0)) (mod_id m)} = 1
   \<and> \<not> reaches [hubLabLink] (mod_id hubM) (mod_id storageFar)
   \<and> distinct (map mod_id [hubM])
   \<and> length [hubM] \<le> 1
   \<and> warnings (validateHabitat binary64 [hubM] [hubLabLink]) = []"
proof -
  let ?ms = "[hubM, labNorth, storageFar]"
  let ?cs = "[hubLabLink]"
  have d: "distinct (map mod_id ?ms)"
    by (simp add: sample_ids)
  have l: "length ?ms = 3"
    by simp
  have e: "endpoints ?cs \<subseteq> mod_id ` set ?ms"
    by (simp add: endpoints_def hubLabLink_def sample_ids)
  have i: "storageFar \<in> set ?ms" "mod_id storageFar \<notin> endpoints ?cs"
    by (simp_all add: endpoints_def hubLabLink_def sample_ids)
  have v: "warnings (validateHabitat binary64 ?ms ?cs) =
       [\<lparr>warn_type = ''disconnected_modules'', warn_message = NotConnected 1,
         warn_severity = ''warning''\<rparr>]"
    by (simp add: validateHabitat_def Let_def connectivityWarnings_def sample_ids walk_hub_lab
        disconnectedWarning_def)
  note w = disconnection_warning_reachability [OF d, of binary64 ?cs]
  from w l e i have "warnings (validateHabitat binary64 ?ms ?cs) =
       [\<lparr>warn_type = ''disconnected_modules'',
         warn_message = NotConnected
           (int (card {m \<in> set ?ms. \<not> reaches ?cs (mod_id (?ms ! 0)) (mod_id m)})),
         warn_severity = ''warning''\<rparr>]"
    by blast
  with v have c: "card {m \<in> set ?ms. \<not> reaches ?cs (mod_id (?ms ! 0)) (mod_id m)} = 1"
    by simp
  have "\<not> reaches ?cs (mod_id hubM) (mod_id storageFar)"
  proof
    assume "reaches ?cs (mod_id hubM) (mod_id storageFar)"
    then have "mod_id storageFar \<in> set (walk ?cs [mod_id hubM] [])"
      by (simp add: walk_reaches)
    then show False
      by (simp add: sample_ids walk_hub_lab)
  qed
  moreover have d1: "distinct (map mod_id [hubM])"
    by simp
  moreover have l1: "length [hubM] \<le> 1"
    by simp
  moreover from disconnection_warning_reachability [OF d1, of binary64 ?cs] l1
  have "warnings (validateHabitat binary64 [hubM] ?cs) = []"
    by blast
  ultimately show ?thesis
    using d l e i v c by (intro conjI)
qed


subsection \<open>The alignment threshold\<close>

lemma cos_pi_5_gt: "161 / 200 < cos (pi / 5)"
proof -
  define c where "c = cos (pi / 5)"
  have pos: "0 < c"
    unfolding c_def by (rule cos_gt_zero) simp_all
  have "3 * (pi / 5) = pi - 2 * (pi / 5)"
    by simp
  then have "cos (3 * (pi / 5)) = - cos (2 * (pi / 5))"
    by (simp only: cos_pi_minus)
  with cos_treble_cos [of "pi / 5"] cos_double_cos [of "pi / 5"]
  have "4 * c ^ 3 - 3 * c = - (2 * c\<^sup>2 - 1)"
    by (simp add: c_def)
  then have "(c + 1) * (4 * c\<^sup>2 - 2 * c - 1) = 0"
    by (simp add: algebra_simps power2_eq_square power3_eq_cube)
  with pos have root: "4 * c\<^sup>2 - 2 * c - 1 = 0"
    by simp
  show ?thesis
  proof (rule ccontr)
    assume "\<not> 161 / 200 < cos (pi / 5)"
    then have le: "c \<le> 161 / 200"
      by (simp add: c_def)
    with pos have "(c - 161 / 200) * (4 * c + 61 / 50) \<le> 0"
      by (intro mult_nonpos_nonneg) simp_all
    then have "4 * c\<^sup>2 - 2 * c - 9821 / 10000 \<le> 0"
      by (simp add: algebra_simps power2_eq_square)
    with root show False
      by simp
  qed
qed

lemma cos_min_alignment: "cos MIN_ALIGNMENT_ANGLE < - (161 / 200)"
proof -
  have "MIN_ALIGNMENT_ANGLE = pi - pi / 5"
    by (simp add: MIN_ALIGNMENT_ANGLE_def)
  then have "cos MIN_ALIGNMENT_ANGLE = cos (pi - pi / 5)"
    by (rule arg_cong)
  also have "\<dots> = - cos (pi / 5)"
    by (rule cos_pi_minus)
  finally show ?thesis
    using cos_pi_5_gt by simp
qed

text \<open>The alignment check as coded: among the pairs that pass the type and distance
  checks, the misaligned ones are those whose dot product exceeds the literal -0.7; a
  pair at exactly that value passes.\<close>

lemma canConnect_misaligned_iff:
  assumes "List.member (rulesFor (cp_type point1)) (cp_type point2)"
    and "distance3D ar (worldPosition point1) (worldPosition point2) \<le>
      MAX_CONNECTION_DISTANCE"
  shows "isMisaligned (reason (canConnect ar point1 point2)) \<longleftrightarrow>
           dotProduct ar (worldNormal point1) (worldNormal point2) > - dbl 0.7"
  using assms by (simp add: canConnect_def Let_def isMisaligned_def)

text \<open>
  Claim C2. Among the pairs that pass the type and distance checks, \<^const>\<open>canConnect\<close>
  fails with a misaligned reason exactly when the dot product of the world normals is
  above the alignment threshold, and that threshold corresponds to an angle of about
  144 degrees (dot product about -0.809), the \<^const>\<open>MIN_ALIGNMENT_ANGLE\<close> of the
  constraints table. The function compares with -0.7 instead: two unit normals with dot
  product -0.8 (about 143.1 degrees) are accepted, although the cosine of
  \<^const>\<open>MIN_ALIGNMENT_ANGLE\<close> is below -0.8 and below the computed dot product.
\<close>

theorem canConnect_alignment_threshold:
  "canConnect binary64 (structuralAt (0, 0, 0) (0, 0, 1))
      (structuralAt (0, 0, 0) (dbl 0.6, 0, - dbl 0.8)) = \<lparr>ok = True, reason = Valid\<rparr>
   \<and> dotProduct binary64 (0, 0, 1) (dbl 0.6, 0, - dbl 0.8) = - dbl 0.8
   \<and> dotProduct binary64 (dbl 0.6, 0, - dbl 0.8) (dbl 0.6, 0, - dbl 0.8) = 1
   \<and> cos MIN_ALIGNMENT_ANGLE < - 0.8
   \<and> cos MIN_ALIGNMENT_ANGLE < dotProduct binary64 (0, 0, 1) (dbl 0.6, 0, - dbl 0.8)"
proof -
  have m: "List.member (rulesFor ''structural'') ''structural''"
    using rulesFor_table(1) by (simp add: STRUCTURAL_def)
  have d: "distance3D binary64 (0, 0, 0) (0, 0, 0) = 0"
    by (simp add: eval64)
  have a: "dotProduct binary64 (0, 0, 1) (dbl 0.6, 0, - dbl 0.8) = - dbl 0.8"
    unfolding literals by (simp add: eval64)
  have t: "\<not> - dbl 0.8 > - dbl 0.7"
    unfolding literals by simp
  have sq: "dbl (29206669829258403248756220714025 / 81129638414606681695789005144064) =
      3242591731706757 / 9007199254740992"
    "dbl (12980742146337070512478121581609 / 20282409603651670423947251286016) =
      1441151880758559 / 2251799813685248"
    "dbl (3242591731706757 / 9007199254740992) = 3242591731706757 / 9007199254740992"
    "dbl (9007199254740993 / 9007199254740992) = 1"
    by (simp_all add: dbl_eval)
  have u: "dotProduct binary64 (dbl 0.6, 0, - dbl 0.8) (dbl 0.6, 0, - dbl 0.8) = 1"
    unfolding literals by (simp add: eval64 sq)
  have v: "canConnect binary64 (structuralAt (0, 0, 0) (0, 0, 1))
      (structuralAt (0, 0, 0) (dbl 0.6, 0, - dbl 0.8)) = \<lparr>ok = True, reason = Valid\<rparr>"
    using m d a t by (simp add: canConnect_def structuralAt_def max_distance Let_def)
  have c1: "cos MIN_ALIGNMENT_ANGLE < - 0.8"
    using cos_min_alignment by simp
  have "- (161 / 200) < - dbl 0.8"
    unfolding literals by simp
  with cos_min_alignment a
  have c2: "cos MIN_ALIGNMENT_ANGLE < dotProduct binary64 (0, 0, 1) (dbl 0.6, 0, - dbl 0.8)"
    by simp
  from v a u c1 c2 show ?thesis
    by (intro conjI)
qed

end
